theory Spec2Isabelle
  imports Complex_Main
begin

section \<open>Live session: playback of the model's audio\<close>

text \<open>
  Source: \<^verbatim>\<open>src/components/LiveSession.tsx\<close>, \<^verbatim>\<open>startSession\<close>.
  The playback state is the pair of closure locals of \<^verbatim>\<open>startSession\<close>,
  \<^verbatim>\<open>let nextStartTime = 0\<close> and \<^verbatim>\<open>const sources = new Set<AudioBufferSourceNode>()\<close>,
  shared by every run of the \<^verbatim>\<open>onmessage\<close> callback of that session.

  An \<^verbatim>\<open>AudioBufferSourceNode\<close> is an object; the model names it by a number, the
  count of nodes created before it. Times are the seconds of the audio clock
  (\<^verbatim>\<open>outputAudioContext.currentTime\<close>, \<^verbatim>\<open>audioBuffer.duration\<close>), JS numbers. The code
  compares them, takes their maximum, adds them and writes the constant 0; the model
  is over any type \<open>'t\<close> of numbers with a linear order, an addition and a zero, and
  assumes no law of the addition. The finite doubles that the clock and the durations are
  form such a type; where a theorem needs that adding a non-negative duration does not
  lower a time, it says so. Concrete examples are calculated in the reals.

  What the code does to the audio graph is kept as two logs:
  \<open>started\<close> holds every call \<^verbatim>\<open>source.start(when)\<close> as (node, when, duration of the
  node's buffer), \<open>stopped\<close> every call \<^verbatim>\<open>source.stop()\<close>.
  The JS \<^verbatim>\<open>Set\<close> iterates in insertion order and holds no duplicates: a duplicate-free list.

  \<^verbatim>\<open>onmessage\<close> is an \<^verbatim>\<open>async\<close> function that suspends at
  \<^verbatim>\<open>await decodeAudioData(...)\<close>; other callbacks run while it waits. \<open>decoding\<close> holds
  the runs of \<^verbatim>\<open>onmessage\<close> that wait there, oldest first: for each, whether its
  message has \<^verbatim>\<open>interrupted\<close> set (the rest of the handler, after the \<^verbatim>\<open>await\<close>,
  reads it).
\<close>

record 't playback =
  nextStartTime :: 't
  sources :: "nat list"
  created :: nat
  started :: "(nat \<times> 't \<times> 't) list"
  stopped :: "nat list"
  decoding :: "bool list"

text \<open>\<^verbatim>\<open>Set.prototype.add\<close> and \<^verbatim>\<open>Set.prototype.delete\<close>.\<close>

definition set_add :: "nat \<Rightarrow> nat list \<Rightarrow> nat list" where
  "set_add x xs = (if x \<in> set xs then xs else xs @ [x])"

definition set_delete :: "nat \<Rightarrow> nat list \<Rightarrow> nat list" where
  "set_delete x xs = filter (\<lambda>y. y \<noteq> x) xs"

text \<open>The state after \<^verbatim>\<open>let nextStartTime = 0; const sources = new Set()\<close>.\<close>

definition playback_init :: "'t::zero playback" where
  "playback_init = \<lparr>nextStartTime = 0, sources = [], created = 0, started = [],
     stopped = [], decoding = []\<rparr>"

text \<open>
  The audio branch of \<^verbatim>\<open>onmessage\<close> (lines 248 to 259), in its two halves around
  the \<^verbatim>\<open>await\<close>:
  \<^verbatim>\<open>
  nextStartTime = Math.max(nextStartTime, outputAudioContext.currentTime);
  const audioBuffer = await decodeAudioData(decode(base64Audio), outputAudioContext, 24000, 1);
  const source = outputAudioContext.createBufferSource();
  source.buffer = audioBuffer;
  source.connect(outputAudioContext.destination);
  source.addEventListener('ended', () => sources.delete(source));
  source.start(nextStartTime);
  nextStartTime = nextStartTime + audioBuffer.duration;
  sources.add(source);
  \<close>
  \<open>enqueue_begin\<close> is the first line, run when the message arrives; \<open>enqueue_finish\<close>
  is what follows the \<^verbatim>\<open>await\<close>, run when the decoding has settled, on the playback
  state as it is by then. \<^verbatim>\<open>decodeAudioData\<close> (\<^verbatim>\<open>../utils/audio\<close>) is not among the
  sources; the model takes from it the duration of the buffer it returns, whatever that
  is.
\<close>

definition enqueue_begin :: "'t::linorder \<Rightarrow> 't playback \<Rightarrow> 't playback" where
  "enqueue_begin currentTime pl = pl\<lparr>nextStartTime := max (nextStartTime pl) currentTime\<rparr>"

definition enqueue_finish :: "'t::plus \<Rightarrow> 't playback \<Rightarrow> 't playback" where
  "enqueue_finish duration pl =
     (let source = created pl in
      pl\<lparr>created := Suc (created pl),
         started := started pl @ [(source, nextStartTime pl, duration)],
         nextStartTime := nextStartTime pl + duration,
         sources := set_add source (sources pl)\<rparr>)"

text \<open>The listener of a node's \<^verbatim>\<open>ended\<close> event: \<^verbatim>\<open>() => sources.delete(source)\<close>.\<close>

definition ended :: "nat \<Rightarrow> 't playback \<Rightarrow> 't playback" where
  "ended source pl = pl\<lparr>sources := set_delete source (sources pl)\<rparr>"

text \<open>
  The interruption branch (lines 260 to 266), which has no \<^verbatim>\<open>await\<close> and so runs to its
  end once begun:
  \<^verbatim>\<open>
  for (const source of sources.values()) {
      source.stop();
      sources.delete(source);
  }
  nextStartTime = 0;
  \<close>
  The loop deletes only the element it is visiting, so the live iterator visits every
  element the set held when the loop began, in order: \<open>stop_each\<close> runs the body over
  that list.
\<close>

fun stop_each :: "nat list \<Rightarrow> 't playback \<Rightarrow> 't playback" where
  "stop_each [] pl = pl"
| "stop_each (source # rest) pl =
     stop_each rest (pl\<lparr>stopped := stopped pl @ [source],
                        sources := set_delete source (sources pl)\<rparr>)"

definition interrupt :: "'t::zero playback \<Rightarrow> 't playback" where
  "interrupt pl = (stop_each (sources pl) pl)\<lparr>nextStartTime := 0\<rparr>"

text \<open>
  What a schedule must satisfy: \<open>no_overlap\<close> says that each entry begins no earlier than
  the entry before it ends, \<open>starts_ascending\<close> that the start times never go back.
\<close>

fun no_overlap :: "(nat \<times> 't::{plus,ord} \<times> 't) list \<Rightarrow> bool" where
  "no_overlap [] = True"
| "no_overlap [a] = True"
| "no_overlap ((n1, s1, d1) # (n2, s2, d2) # rest) =
     (s1 + d1 \<le> s2 \<and> no_overlap ((n2, s2, d2) # rest))"

fun starts_ascending :: "(nat \<times> 't::ord \<times> 't) list \<Rightarrow> bool" where
  "starts_ascending [] = True"
| "starts_ascending [a] = True"
| "starts_ascending ((n1, s1, d1) # (n2, s2, d2) # rest) =
     (s1 \<le> s2 \<and> starts_ascending ((n2, s2, d2) # rest))"

section \<open>Live session: the component\<close>

text \<open>
  One turn of the transcript, \<^verbatim>\<open>{user: string, model: string}\<close>; the image of the
  application context, \<^verbatim>\<open>{data: string; mimeType: string}\<close>; a \<^verbatim>\<open>SessionSummary\<close>
  of \<^verbatim>\<open>types.ts\<close> (its field \<^verbatim>\<open>id\<close> is \<open>summary_id\<close> here).
\<close>

record turn =
  user :: string
  model :: string

record image =
  data :: string
  mimeType :: string

record session_summary =
  summary_id :: string
  title :: string
  content :: string
  date :: string

definition empty_turn :: turn where
  "empty_turn = \<lparr>user = [], model = []\<rparr>"

text \<open>
  The promise returned by \<^verbatim>\<open>ai.live.connect\<close>: which promise it is, and whether it
  fulfils with a session (it rejects otherwise).
\<close>

record promise =
  promise_id :: nat
  fulfils :: bool

datatype media_type = Camera | Screen

datatype media_result = Granted | Refused

text \<open>
  The state of one mounted \<^verbatim>\<open>LiveSession\<close> component and of the browser objects it
  holds.
  \<^item> \<open>isSessionActive\<close> to \<open>currentSpokenText\<close>: the values of its \<^verbatim>\<open>useState\<close> hooks
    (\<^verbatim>\<open>isInviteModalOpen\<close> only opens a dialog and is left out);
  \<^item> \<open>sharedImage\<close>: the slot of \<^verbatim>\<open>AppContextProvider\<close>;
  \<^item> \<open>sessionPromiseRef\<close> to \<open>canvasRef\<close>: the \<^verbatim>\<open>useRef\<close> cells (\<^verbatim>\<open>null\<close> is
    \<open>None\<close>). A stream, processor or interval is named by a number. \<open>audioContextRef\<close>
    holds the context and whether its \<^verbatim>\<open>state\<close> is \<^verbatim>\<open>'closed'\<close>. \<open>videoRef\<close> is
    \<open>None\<close> when the video element is not mounted and otherwise holds the element's
    \<^verbatim>\<open>srcObject\<close>. \<open>canvasRef\<close> says whether the hidden canvas is mounted;
  \<^item> \<open>opened\<close> to \<open>thenSends\<close>: what the component has done to the browser, as logs.
    \<open>opened\<close>: streams returned by \<^verbatim>\<open>getUserMedia\<close> or \<^verbatim>\<open>getDisplayMedia\<close>;
    \<open>trackStops\<close>: streams whose tracks were stopped; \<open>intervalsSet\<close> and
    \<open>intervalsCleared\<close>: \<^verbatim>\<open>setInterval\<close> and \<^verbatim>\<open>clearInterval\<close>;
    \<open>sessionCloses\<close>: \<^verbatim>\<open>session.close()\<close>; \<open>disconnects\<close>: \<^verbatim>\<open>disconnect()\<close> of a
    script processor; \<open>contextCloses\<close>: \<^verbatim>\<open>close()\<close> of an audio context;
    \<open>thenSends\<close>: every \<^verbatim>\<open>sessionPromiseRef.current.then(session =>
    session.sendRealtimeInput({media: ...}))\<close> made for the shared image, with the promise
    it was registered on (a promise runs such a callback once, when it fulfils);
  \<^item> \<open>pendingMedia\<close>: the calls of \<^verbatim>\<open>startMediaStream\<close> that wait at their
    \<^verbatim>\<open>await\<close> for the device;
  \<^item> \<open>nextHandle\<close>: the next unused number.
\<close>

record live_session =
  isSessionActive :: bool
  isMicOn :: bool
  isCameraOn :: bool
  isScreenOn :: bool
  isAnnotating :: bool
  status :: string
  transcription :: "turn list"
  currentSpokenText :: turn
  sharedImage :: "image option"
  sessionPromiseRef :: "promise option"
  mediaStreamRef :: "nat option"
  audioContextRef :: "(nat \<times> bool) option"
  scriptProcessorRef :: "nat option"
  frameIntervalRef :: "nat option"
  videoRef :: "nat option option"
  canvasRef :: bool
  opened :: "(media_type \<times> nat) list"
  trackStops :: "nat list"
  intervalsSet :: "nat list"
  intervalsCleared :: "nat list"
  sessionCloses :: "nat list"
  disconnects :: "nat list"
  contextCloses :: "nat list"
  thenSends :: "(promise \<times> image) list"
  pendingMedia :: "media_type list"
  nextHandle :: nat

text \<open>The component as first rendered, with its video element and canvas mounted.\<close>

definition mounted :: live_session where
  "mounted = \<lparr>isSessionActive = False, isMicOn = False, isCameraOn = False,
     isScreenOn = False, isAnnotating = False, status = ''Idle. Press Start to connect.'',
     transcription = [], currentSpokenText = empty_turn, sharedImage = None,
     sessionPromiseRef = None, mediaStreamRef = None, audioContextRef = None,
     scriptProcessorRef = None, frameIntervalRef = None, videoRef = Some None,
     canvasRef = True, opened = [], trackStops = [], intervalsSet = [],
     intervalsCleared = [], sessionCloses = [], disconnects = [], contextCloses = [],
     thenSends = [], pendingMedia = [], nextHandle = 0\<rparr>"

text \<open>
  \<^verbatim>\<open>process.env.API_KEY\<close> is \<^verbatim>\<open>undefined\<close> (\<open>None\<close>) or a string; it counts as set when
  it is a non-empty string.
\<close>

definition key_set :: "string option \<Rightarrow> bool" where
  "key_set api_key = (case api_key of None \<Rightarrow> False | Some k \<Rightarrow> k \<noteq> [])"

subsection \<open>Inbound messages\<close>

text \<open>
  The parts of a \<^verbatim>\<open>LiveServerMessage\<close> that \<^verbatim>\<open>onmessage\<close> reads, all under
  \<^verbatim>\<open>serverContent\<close>: the text of \<^verbatim>\<open>outputTranscription\<close> and of
  \<^verbatim>\<open>inputTranscription\<close> when present, \<^verbatim>\<open>turnComplete\<close>, the base64 string
  \<^verbatim>\<open>modelTurn.parts[0].inlineData.data\<close> when present, and \<^verbatim>\<open>interrupted\<close>.
  \<open>has_audio\<close> is the test \<^verbatim>\<open>if (base64Audio)\<close>: the string is there and not empty.
\<close>

record message =
  outputTranscription :: "string option"
  inputTranscription :: "string option"
  turnComplete :: bool
  audio :: "string option"
  interrupted :: bool

definition has_audio :: "message \<Rightarrow> bool" where
  "has_audio m = (case audio m of None \<Rightarrow> False | Some base64Audio \<Rightarrow> base64Audio \<noteq> [])"

text \<open>
  \<^verbatim>\<open>startSession\<close> (lines 211 to 279). \<open>connects\<close> says whether the promise of
  \<^verbatim>\<open>ai.live.connect\<close> will fulfil. The callbacks passed to \<^verbatim>\<open>connect\<close> are closures
  made in this call: the identifier \<^verbatim>\<open>currentSpokenText\<close> inside \<^verbatim>\<open>onmessage\<close> is the
  constant of the render in which \<^verbatim>\<open>startSession\<close> ran, so it keeps the value the state
  had then (\<open>startSession_captures\<close>), whatever \<^verbatim>\<open>setCurrentSpokenText\<close> does later. The
  playback locals of the call start as \<open>playback_init\<close>.
\<close>

definition startSession :: "string option \<Rightarrow> bool \<Rightarrow> live_session \<Rightarrow> live_session" where
  "startSession api_key connects c =
     (if \<not> key_set api_key then c\<lparr>status := ''API Key not found.''\<rparr>
      else c\<lparr>status := ''Connecting...'',
             sessionPromiseRef := Some \<lparr>promise_id = nextHandle c, fulfils = connects\<rparr>,
             nextHandle := Suc (nextHandle c)\<rparr>)"

definition startSession_captures :: "live_session \<Rightarrow> turn" where
  "startSession_captures c = currentSpokenText c"

definition onopen :: "live_session \<Rightarrow> live_session" where
  "onopen c = c\<lparr>isSessionActive := True,
                 status := ''Connected! Enable mic to start talking.''\<rparr>"

text \<open>
  \<^verbatim>\<open>onmessage\<close> (lines 236 to 267), from its start to its \<^verbatim>\<open>await\<close>, or to its end
  when the message has no audio. Its first three branches change component state
  only, through \<^verbatim>\<open>setCurrentSpokenText\<close> and \<^verbatim>\<open>setTranscription\<close>; React applies the
  queued updates in the order of the calls:
  \<^verbatim>\<open>
  if (message.serverContent?.outputTranscription) {
      setCurrentSpokenText(prev => ({...prev, model: prev.model + ...outputTranscription!.text}));
  }
  if (message.serverContent?.inputTranscription) {
      setCurrentSpokenText(prev => ({...prev, user: prev.user + ...inputTranscription!.text}));
  }
  if (message.serverContent?.turnComplete) {
      setTranscription(prev => [...prev, currentSpokenText]);
      setCurrentSpokenText({user: '', model: ''});
  }
  \<close>
  In the third branch \<^verbatim>\<open>currentSpokenText\<close> is the captured constant, the argument
  \<open>captured\<close>; the two functional updates above it read the live state \<^verbatim>\<open>prev\<close>.
  The last two branches change the playback locals only.
\<close>

definition onmessage_transcript :: "turn \<Rightarrow> message \<Rightarrow> live_session \<Rightarrow> live_session" where
  "onmessage_transcript captured m c =
     (let c1 = (case outputTranscription m of
                  Some text \<Rightarrow> c\<lparr>currentSpokenText :=
                      (currentSpokenText c)\<lparr>model := model (currentSpokenText c) @ text\<rparr>\<rparr>
                | None \<Rightarrow> c);
          c2 = (case inputTranscription m of
                  Some text \<Rightarrow> c1\<lparr>currentSpokenText :=
                      (currentSpokenText c1)\<lparr>user := user (currentSpokenText c1) @ text\<rparr>\<rparr>
                | None \<Rightarrow> c1)
      in if turnComplete m
         then c2\<lparr>transcription := transcription c2 @ [captured],
                 currentSpokenText := \<lparr>user = [], model = []\<rparr>\<rparr>
         else c2)"

definition onmessage_audio ::
  "message \<Rightarrow> 't::{linorder,zero} \<Rightarrow> 't playback \<Rightarrow> 't playback" where
  "onmessage_audio m currentTime pl =
     (if has_audio m
      then (enqueue_begin currentTime pl)\<lparr>decoding := decoding pl @ [interrupted m]\<rparr>
      else if interrupted m then interrupt pl else pl)"

definition onmessage ::
  "turn \<Rightarrow> message \<Rightarrow> 't::{linorder,zero} \<Rightarrow> live_session \<times> 't playback
     \<Rightarrow> live_session \<times> 't playback" where
  "onmessage captured m currentTime st =
     (onmessage_transcript captured m (fst st), onmessage_audio m currentTime (snd st))"

text \<open>
  The rest of a run of \<^verbatim>\<open>onmessage\<close> that waits at the \<^verbatim>\<open>await\<close>, the one at place
  \<open>i\<close> of \<open>decoding\<close> (decodings may settle in any order). When the decoding has
  returned a buffer of the given duration (\<open>onmessage_resume\<close>): lines 252 to 258, then
  the interruption branch if the message has \<^verbatim>\<open>interrupted\<close>. When \<^verbatim>\<open>decode\<close> or
  \<^verbatim>\<open>decodeAudioData\<close> throws (\<open>onmessage_abort\<close>): the run ends there, nothing else of
  it is executed.
\<close>

definition onmessage_resume ::
  "nat \<Rightarrow> 't::{plus,zero} \<Rightarrow> 't playback \<Rightarrow> 't playback" where
  "onmessage_resume i duration pl =
     (if i < length (decoding pl)
      then let pl1 = enqueue_finish duration
                       (pl\<lparr>decoding := take i (decoding pl) @ drop (Suc i) (decoding pl)\<rparr>)
           in if decoding pl ! i then interrupt pl1 else pl1
      else pl)"

definition onmessage_abort :: "nat \<Rightarrow> 't playback \<Rightarrow> 't playback" where
  "onmessage_abort i pl =
     (if i < length (decoding pl)
      then pl\<lparr>decoding := take i (decoding pl) @ drop (Suc i) (decoding pl)\<rparr>
      else pl)"

text \<open>Messages that carry one thing each.\<close>

definition no_content :: message where
  "no_content = \<lparr>outputTranscription = None, inputTranscription = None,
     turnComplete = False, audio = None, interrupted = False\<rparr>"

definition OutputTranscriptDelta :: "string \<Rightarrow> message" where
  "OutputTranscriptDelta text = no_content\<lparr>outputTranscription := Some text\<rparr>"

definition InputTranscriptDelta :: "string \<Rightarrow> message" where
  "InputTranscriptDelta text = no_content\<lparr>inputTranscription := Some text\<rparr>"

definition TurnComplete :: message where
  "TurnComplete = no_content\<lparr>turnComplete := True\<rparr>"

definition AudioChunk :: "string \<Rightarrow> message" where
  "AudioChunk base64Audio = no_content\<lparr>audio := Some base64Audio\<rparr>"

definition Interrupted :: message where
  "Interrupted = no_content\<lparr>interrupted := True\<rparr>"

text \<open>Messages of one session handled one after another, all with the same closure.\<close>

fun onmessage_all :: "turn \<Rightarrow> message list \<Rightarrow> live_session \<Rightarrow> live_session" where
  "onmessage_all captured [] c = c"
| "onmessage_all captured (m # ms) c =
     onmessage_all captured ms (onmessage_transcript captured m c)"

text \<open>
  What can happen to the playback state of a session: a message arrives at a clock time,
  a waiting decoding returns a buffer of some duration or throws, a started node's
  \<^verbatim>\<open>ended\<close> event fires. \<open>interrupting\<close> says whether an event is the arrival of a
  message with \<^verbatim>\<open>interrupted\<close> set.
\<close>

datatype 't audio_event =
  Arrives message 't
| Decoded nat 't
| DecodeFails nat
| Ended nat

fun audio_step :: "'t::{linorder,plus,zero} audio_event \<Rightarrow> 't playback \<Rightarrow> 't playback" where
  "audio_step (Arrives m currentTime) pl = onmessage_audio m currentTime pl"
| "audio_step (Decoded i duration) pl = onmessage_resume i duration pl"
| "audio_step (DecodeFails i) pl = onmessage_abort i pl"
| "audio_step (Ended source) pl = ended source pl"

fun audio_run :: "'t::{linorder,plus,zero} audio_event list \<Rightarrow> 't playback \<Rightarrow> 't playback" where
  "audio_run [] pl = pl"
| "audio_run (e # es) pl = audio_run es (audio_step e pl)"

fun interrupting :: "'t audio_event \<Rightarrow> bool" where
  "interrupting (Arrives m currentTime) = interrupted m"
| "interrupting (Decoded i duration) = False"
| "interrupting (DecodeFails i) = False"
| "interrupting (Ended source) = False"

subsection \<open>The session summary\<close>

text \<open>
  \<^verbatim>\<open>fullTranscription.map(t => `User: ${t.user}\nGemini: ${t.model}`).join('\n\n')\<close>,
  with \<^verbatim>\<open>Array.prototype.join\<close>.
\<close>

fun join :: "string \<Rightarrow> string list \<Rightarrow> string" where
  "join sep [] = []"
| "join sep [x] = x"
| "join sep (x # y # rest) = x @ sep @ join sep (y # rest)"

definition turn_text :: "turn \<Rightarrow> string" where
  "turn_text t = ''User: '' @ user t @ [CHR 0x0A] @ ''Gemini: '' @ model t"

definition transcriptText :: "turn list \<Rightarrow> string" where
  "transcriptText fullTranscription =
     join [CHR 0x0A, CHR 0x0A] (map turn_text fullTranscription)"

text \<open>
  What the \<^verbatim>\<open>try\<close> block of \<^verbatim>\<open>generateAndSaveSummary\<close> meets: \<open>Throws\<close> when
  constructing the client or \<^verbatim>\<open>ai.models.generateContent\<close> throws; otherwise the
  response's \<^verbatim>\<open>text\<close> together with what
  \<^verbatim>\<open>JSON.parse\<close> makes of the cleaned text: \<open>None\<close> when the inner \<^verbatim>\<open>try\<close> throws,
  else the \<^verbatim>\<open>title\<close> and \<^verbatim>\<open>summary\<close> of the parsed value (\<open>None\<close> for
  \<^verbatim>\<open>undefined\<close>). \<open>or_else a b\<close> is \<^verbatim>\<open>a || b\<close> on strings.
\<close>

datatype generate_result =
  Throws
| Responds string "(string option \<times> string option) option"

definition or_else :: "string option \<Rightarrow> string \<Rightarrow> string" where
  "or_else a b = (case a of None \<Rightarrow> b | Some s \<Rightarrow> if s = [] then b else s)"

text \<open>
  \<^verbatim>\<open>generateAndSaveSummary\<close> (lines 114 to 162). \<open>now\<close> is what \<^verbatim>\<open>new Date()\<close> gives,
  as \<^verbatim>\<open>toISOString()\<close> and \<^verbatim>\<open>toLocaleString()\<close>. The second component of the result is
  the list of calls of \<^verbatim>\<open>onSessionEnd\<close>, each with the record it is given.
  \<^verbatim>\<open>
  if (fullTranscription.length === 0 || !process.env.API_KEY) return;
  setStatus("Generating session summary...");
  try {
      ... const response = await ai.models.generateContent(...);
      let result = { title: "Session Summary", summary: "Could not generate summary." };
      try {
          ... const parsed = JSON.parse(cleanedText);
          result.title = parsed.title || result.title;
          result.summary = parsed.summary || response.text;
      } catch (e) { result.summary = response.text; }
      onSessionEnd({id: ..., title: result.title, content: result.summary, date: ...});
  } catch (error) {
      onSessionEnd({id: ..., title: "Session Log (Summary Failed)",
          content: fullTranscription.map(...).join('\n\n'), date: ...});
  }
  \<close>
\<close>

definition generateAndSaveSummary ::
  "string option \<Rightarrow> generate_result \<Rightarrow> string \<times> string \<Rightarrow> turn list \<Rightarrow> live_session
     \<Rightarrow> live_session \<times> session_summary list" where
  "generateAndSaveSummary api_key outcome now fullTranscription c =
     (if fullTranscription = [] \<or> \<not> key_set api_key then (c, [])
      else
        let c1 = c\<lparr>status := ''Generating session summary...''\<rparr> in
        case outcome of
          Responds text parsed \<Rightarrow>
            let result = (case parsed of
                            Some (parsed_title, parsed_summary) \<Rightarrow>
                              (or_else parsed_title ''Session Summary'',
                               or_else parsed_summary text)
                          | None \<Rightarrow> (''Session Summary'', text))
            in (c1, [\<lparr>summary_id = fst now, title = fst result,
                       content = snd result, date = snd now\<rparr>])
        | Throws \<Rightarrow>
            (c1, [\<lparr>summary_id = fst now, title = ''Session Log (Summary Failed)'',
                    content = transcriptText fullTranscription, date = snd now\<rparr>]))"

subsection \<open>Teardown\<close>

text \<open>\<^verbatim>\<open>stopAllStreams\<close> (lines 164 to 176).\<close>

definition stopAllStreams :: "live_session \<Rightarrow> live_session" where
  "stopAllStreams c =
     (let c1 = (case mediaStreamRef c of
                  Some stream \<Rightarrow> c\<lparr>trackStops := trackStops c @ [stream],
                                   mediaStreamRef := None\<rparr>
                | None \<Rightarrow> c);
          c2 = (case frameIntervalRef c1 of
                  Some interval \<Rightarrow> c1\<lparr>intervalsCleared := intervalsCleared c1 @ [interval],
                                      frameIntervalRef := None\<rparr>
                | None \<Rightarrow> c1)
      in case videoRef c2 of
           Some srcObject \<Rightarrow> c2\<lparr>videoRef := Some None\<rparr>
         | None \<Rightarrow> c2)"

text \<open>
  The turn still being spoken, as \<^verbatim>\<open>stopSession\<close> adds it (line 204):
  \<^verbatim>\<open>...(currentSpokenText.user || currentSpokenText.model ? [currentSpokenText] : [])\<close>;
  a string is truthy when it is not empty.
\<close>

definition flushPending :: "turn \<Rightarrow> turn list" where
  "flushPending current = (if user current \<noteq> [] \<or> model current \<noteq> [] then [current] else [])"

definition finalTranscription :: "turn list \<Rightarrow> turn \<Rightarrow> turn list" where
  "finalTranscription committed current = committed @ flushPending current"

text \<open>
  \<^verbatim>\<open>stopSession\<close> (lines 178 to 209). It is a \<^verbatim>\<open>useCallback\<close> closure: the
  \<^verbatim>\<open>transcription\<close> and \<^verbatim>\<open>currentSpokenText\<close> it reads are those of the render that
  made it, the arguments \<open>committed\<close> and \<open>current\<close>. The Stop button calls the closure of
  the latest render (\<open>stop_clicked\<close>); the unmount cleanup calls that of the first render
  (\<open>stop_on_unmount\<close>). \<^verbatim>\<open>session.close()\<close> is reached when the promise fulfils; a
  rejection is caught and logged to the console.
\<close>

definition stopSession ::
  "turn list \<Rightarrow> turn \<Rightarrow> string option \<Rightarrow> generate_result \<Rightarrow> string \<times> string \<Rightarrow> live_session
     \<Rightarrow> live_session \<times> session_summary list" where
  "stopSession committed current api_key outcome now c =
     (let c1 = stopAllStreams (c\<lparr>isSessionActive := False, isMicOn := False,
                 isCameraOn := False, isScreenOn := False, isAnnotating := False\<rparr>);
          c2 = (case sessionPromiseRef c1 of
                  Some p \<Rightarrow>
                    (if fulfils p
                     then c1\<lparr>sessionCloses := sessionCloses c1 @ [promise_id p]\<rparr>
                     else c1)\<lparr>sessionPromiseRef := None\<rparr>
                | None \<Rightarrow> c1);
          c3 = (case scriptProcessorRef c2 of
                  Some node \<Rightarrow> c2\<lparr>disconnects := disconnects c2 @ [node],
                                 scriptProcessorRef := None\<rparr>
                | None \<Rightarrow> c2);
          c4 = (case audioContextRef c3 of
                  Some (ctx, ctx_closed) \<Rightarrow>
                    if \<not> ctx_closed
                    then c3\<lparr>contextCloses := contextCloses c3 @ [ctx],
                            audioContextRef := None\<rparr>
                    else c3
                | None \<Rightarrow> c3);
          r = generateAndSaveSummary api_key outcome now
                (finalTranscription committed current) c4
      in ((fst r)\<lparr>transcription := [], currentSpokenText := \<lparr>user = [], model = []\<rparr>,
                   status := ''Session ended.''\<rparr>,
          snd r))"

definition stop_clicked ::
  "string option \<Rightarrow> generate_result \<Rightarrow> string \<times> string \<Rightarrow> live_session
     \<Rightarrow> live_session \<times> session_summary list" where
  "stop_clicked api_key outcome now c =
     stopSession (transcription c) (currentSpokenText c) api_key outcome now c"

definition stop_on_unmount ::
  "string option \<Rightarrow> generate_result \<Rightarrow> string \<times> string \<Rightarrow> live_session
     \<Rightarrow> live_session \<times> session_summary list" where
  "stop_on_unmount api_key outcome now c =
     stopSession [] \<lparr>user = [], model = []\<rparr> api_key outcome now c"

subsection \<open>Camera and screen share\<close>

text \<open>
  \<^verbatim>\<open>startMediaStream\<close> (lines 320 to 364) runs up to its \<^verbatim>\<open>await\<close> when it is called
  (\<open>startMediaStream_begin\<close>) and returns to its caller; the rest runs when the browser
  settles \<^verbatim>\<open>getUserMedia\<close> or \<^verbatim>\<open>getDisplayMedia\<close> (\<open>startMediaStream_resume\<close>), after
  the user has answered the permission prompt. \<^verbatim>\<open>toggleCamera\<close> and
  \<^verbatim>\<open>toggleScreenShare\<close> (lines 366 to 386) do not wait for it.
\<close>

definition type_name :: "media_type \<Rightarrow> string" where
  "type_name type = (case type of Camera \<Rightarrow> ''camera'' | Screen \<Rightarrow> ''screen'')"

definition startMediaStream_begin :: "media_type \<Rightarrow> live_session \<Rightarrow> live_session" where
  "startMediaStream_begin type c =
     (let c1 = stopAllStreams c in c1\<lparr>pendingMedia := pendingMedia c1 @ [type]\<rparr>)"

definition startMediaStream_resume ::
  "media_type \<Rightarrow> media_result \<Rightarrow> live_session \<Rightarrow> live_session" where
  "startMediaStream_resume type result c =
     (case result of
        Refused \<Rightarrow> c\<lparr>status := type_name type @ '' access denied or failed.''\<rparr>
      | Granted \<Rightarrow>
          let stream = nextHandle c;
              c1 = c\<lparr>nextHandle := Suc stream, opened := opened c @ [(type, stream)],
                     mediaStreamRef := Some stream\<rparr>;
              c2 = (case videoRef c1 of
                      Some srcObject \<Rightarrow> c1\<lparr>videoRef := Some (Some stream)\<rparr>
                    | None \<Rightarrow> c1);
              c3 = (case type of
                      Camera \<Rightarrow> c2\<lparr>isCameraOn := True\<rparr>
                    | Screen \<Rightarrow> c2\<lparr>isScreenOn := True\<rparr>)
          in if \<not> canvasRef c3 \<or> videoRef c3 = None then c3
             else c3\<lparr>nextHandle := Suc (nextHandle c3),
                     intervalsSet := intervalsSet c3 @ [nextHandle c3],
                     frameIntervalRef := Some (nextHandle c3)\<rparr>)"

definition toggleCamera :: "live_session \<Rightarrow> live_session" where
  "toggleCamera c =
     (if \<not> isSessionActive c then c
      else if isCameraOn c then (stopAllStreams c)\<lparr>isCameraOn := False\<rparr>
      else startMediaStream_begin Camera
             (if isScreenOn c then c\<lparr>isScreenOn := False\<rparr> else c))"

definition toggleScreenShare :: "live_session \<Rightarrow> live_session" where
  "toggleScreenShare c =
     (if \<not> isSessionActive c then c
      else if isScreenOn c then (stopAllStreams c)\<lparr>isScreenOn := False\<rparr>
      else startMediaStream_begin Screen
             (if isCameraOn c then c\<lparr>isCameraOn := False\<rparr> else c))"

text \<open>The browser settles the oldest waiting acquisition.\<close>

definition media_settles :: "media_result \<Rightarrow> live_session \<Rightarrow> live_session" where
  "media_settles result c =
     (case pendingMedia c of
        [] \<Rightarrow> c
      | type # rest \<Rightarrow> startMediaStream_resume type result (c\<lparr>pendingMedia := rest\<rparr>))"

text \<open>
  The capture devices the component holds: the streams it opened whose tracks it has not
  stopped, and the frame timers it set and has not cleared.
\<close>

definition held_streams :: "live_session \<Rightarrow> (media_type \<times> nat) list" where
  "held_streams c = filter (\<lambda>(type, stream). stream \<notin> set (trackStops c)) (opened c)"

definition running_intervals :: "live_session \<Rightarrow> nat list" where
  "running_intervals c = filter (\<lambda>i. i \<notin> set (intervalsCleared c)) (intervalsSet c)"

subsection \<open>The shared image\<close>

text \<open>
  The effect of lines 43 to 52, which React runs after the mount and after each render in
  which \<^verbatim>\<open>sharedImage\<close> has changed:
  \<^verbatim>\<open>
  if (sharedImage && sessionPromiseRef.current) {
      sessionPromiseRef.current.then(session => {
          session.sendRealtimeInput({media: {data: sharedImage.data, mimeType: sharedImage.mimeType}});
      });
      setSharedImage(null); // Consume the image
  }
  \<close>
  \<open>handover\<close> is the chat's \<^verbatim>\<open>setSharedImage({data: base64Data, mimeType: file.type})\<close>
  (\<^verbatim>\<open>FloatingChat.tsx\<close>, line 111), a new object and so a change, followed by the effect.
  \<open>sendRealtimeInput_calls\<close> are the calls that the registered callbacks make: those on a
  promise that fulfils.
\<close>

definition sharedImage_effect :: "live_session \<Rightarrow> live_session" where
  "sharedImage_effect c =
     (case sharedImage c of
        None \<Rightarrow> c
      | Some img \<Rightarrow>
          (case sessionPromiseRef c of
             None \<Rightarrow> c
           | Some p \<Rightarrow> c\<lparr>thenSends := thenSends c @ [(p, img)], sharedImage := None\<rparr>))"

definition handover :: "image \<Rightarrow> live_session \<Rightarrow> live_session" where
  "handover img c = sharedImage_effect (c\<lparr>sharedImage := Some img\<rparr>)"



subsection \<open>Everything that can happen to the component\<close>

datatype event =
  Handover image
| EffectRuns
| ClickStart "string option" bool
| Opens
| Inbound turn message
| ClickStop "string option" generate_result "string \<times> string"
| Unmounts "string option" generate_result "string \<times> string"
| ClickCamera
| ClickScreenShare
| MediaSettles media_result

fun step :: "event \<Rightarrow> live_session \<Rightarrow> live_session" where
  "step (Handover img) c = handover img c"
| "step EffectRuns c = sharedImage_effect c"
| "step (ClickStart api_key connects) c = startSession api_key connects c"
| "step Opens c = onopen c"
| "step (Inbound captured m) c = onmessage_transcript captured m c"
| "step (ClickStop api_key outcome now) c = fst (stop_clicked api_key outcome now c)"
| "step (Unmounts api_key outcome now) c = fst (stop_on_unmount api_key outcome now c)"
| "step ClickCamera c = toggleCamera c"
| "step ClickScreenShare c = toggleScreenShare c"
| "step (MediaSettles result) c = media_settles result c"

fun run :: "event list \<Rightarrow> live_session \<Rightarrow> live_session" where
  "run [] c = c"
| "run (e # es) c = run es (step e c)"


section \<open>Playback: interruption\<close>

lemma stop_each_fields:
  "sources (stop_each hs pl) = filter (\<lambda>x. x \<notin> set hs) (sources pl)
   \<and> stopped (stop_each hs pl) = stopped pl @ hs
   \<and> nextStartTime (stop_each hs pl) = nextStartTime pl
   \<and> started (stop_each hs pl) = started pl
   \<and> created (stop_each hs pl) = created pl
   \<and> decoding (stop_each hs pl) = decoding pl"
proof (induction hs arbitrary: pl)
  case Nil
  show ?case by simp
next
  case (Cons h hs)
  have "filter (\<lambda>x. x \<notin> set hs) (set_delete h (sources pl))
      = filter (\<lambda>x. x \<notin> set (h # hs)) (sources pl)"
    by (induction "sources pl") (auto simp: set_delete_def intro: filter_cong)
  with Cons [of "pl\<lparr>stopped := stopped pl @ [h], sources := set_delete h (sources pl)\<rparr>"]
  show ?case by simp
qed

lemma interrupt_fields:
  "sources (interrupt pl) = [] \<and> stopped (interrupt pl) = stopped pl @ sources pl
   \<and> nextStartTime (interrupt pl) = 0 \<and> started (interrupt pl) = started pl
   \<and> created (interrupt pl) = created pl \<and> decoding (interrupt pl) = decoding pl"
  by (simp add: interrupt_def stop_each_fields)

lemma ended_run_fields:
  "sources (audio_run (map Ended hs) pl) = filter (\<lambda>x. x \<notin> set hs) (sources pl)
   \<and> nextStartTime (audio_run (map Ended hs) pl) = nextStartTime pl"
proof (induction hs arbitrary: pl)
  case Nil
  show ?case by simp
next
  case (Cons h hs)
  have "filter (\<lambda>x. x \<notin> set hs) (set_delete h (sources pl))
      = filter (\<lambda>x. x \<notin> set (h # hs)) (sources pl)"
    by (induction "sources pl") (auto simp: set_delete_def intro: filter_cong)
  with Cons [of "ended h pl"] show ?case by (simp add: ended_def)
qed

lemma enqueue_finish_fields:
  "started (enqueue_finish d pl) = started pl @ [(created pl, nextStartTime pl, d)]
   \<and> nextStartTime (enqueue_finish d pl) = nextStartTime pl + d
   \<and> created (enqueue_finish d pl) = Suc (created pl)
   \<and> sources (enqueue_finish d pl) = set_add (created pl) (sources pl)
   \<and> stopped (enqueue_finish d pl) = stopped pl
   \<and> decoding (enqueue_finish d pl) = decoding pl"
  by (simp add: enqueue_finish_def Let_def)

text \<open>
  C1, as the claim states it, fails: the interruption branch sets \<^verbatim>\<open>nextStartTime = 0\<close>
  and never reads the clock. A chunk of two seconds arrives at clock time 4 and is
  decoded, the interruption arrives at clock time 5: the cursor is then 0, not 5.
\<close>

theorem interrupt_cursor_counterexample:
  "nextStartTime (onmessage_audio Interrupted 5
      (audio_run [Arrives (AudioChunk ''UklGRg=='') 4, Decoded 0 2] playback_init))
   \<noteq> (5::real)"
  by (simp add: onmessage_audio_def Interrupted_def no_content_def has_audio_def
      interrupt_fields)

text \<open>
  C1, amended. From every playback state, with decodings in flight or not, handling an
  \<open>Interrupted\<close> message calls \<^verbatim>\<open>stop()\<close> on every node of \<^verbatim>\<open>sources\<close> and removes it;
  after the interruption and any completion callbacks that fire later, \<^verbatim>\<open>sources\<close> is
  empty and the cursor \<^verbatim>\<open>nextStartTime\<close> is 0, the value a session starts with, whatever
  the clock read at the interruption.
\<close>

theorem interrupt_then_completions:
  "sources (audio_run (map Ended completed) (onmessage_audio Interrupted currentTime pl)) = []
   \<and> nextStartTime (audio_run (map Ended completed)
        (onmessage_audio Interrupted currentTime pl)) = 0
   \<and> stopped (onmessage_audio Interrupted currentTime pl) = stopped pl @ sources pl"
  by (simp add: onmessage_audio_def Interrupted_def no_content_def has_audio_def
      interrupt_fields ended_run_fields)

section \<open>Playback: scheduling\<close>

lemma onmessage_resume_fields:
  "i < length (decoding pl) \<Longrightarrow>
   started (onmessage_resume i d pl) = started pl @ [(created pl, nextStartTime pl, d)]
   \<and> decoding (onmessage_resume i d pl) = take i (decoding pl) @ drop (Suc i) (decoding pl)
   \<and> created (onmessage_resume i d pl) = Suc (created pl)
   \<and> (\<not> decoding pl ! i \<longrightarrow>
        nextStartTime (onmessage_resume i d pl) = nextStartTime pl + d
        \<and> sources (onmessage_resume i d pl) = set_add (created pl) (sources pl)
        \<and> stopped (onmessage_resume i d pl) = stopped pl)"
  by (simp add: onmessage_resume_def Let_def enqueue_finish_fields interrupt_fields)

lemma arrival_fields:
  "started (onmessage_audio m t pl) = started pl
   \<and> created (onmessage_audio m t pl) = created pl
   \<and> (\<not> interrupted m \<longrightarrow>
        nextStartTime (onmessage_audio m t pl)
          = (if has_audio m then max (nextStartTime pl) t else nextStartTime pl)
        \<and> decoding (onmessage_audio m t pl)
          = (if has_audio m then decoding pl @ [False] else decoding pl)
        \<and> sources (onmessage_audio m t pl) = sources pl)"
  by (simp add: onmessage_audio_def enqueue_begin_def interrupt_fields)

text \<open>
  One event with no interruption, from a state in which no waiting run will interrupt:
  either nothing is scheduled and the cursor does not go back, or one chunk is started
  at the cursor and the cursor moves to its end.
\<close>

lemma audio_step_schedule:
  assumes "\<not> interrupting e" and "\<forall>b \<in> set (decoding pl). \<not> b"
  shows "(\<forall>b \<in> set (decoding (audio_step e pl)). \<not> b)
    \<and> (started (audio_step e pl) = started pl
         \<and> nextStartTime pl \<le> nextStartTime (audio_step e pl)
       \<or> (\<exists>d. started (audio_step e pl) = started pl @ [(created pl, nextStartTime pl, d)]
             \<and> nextStartTime (audio_step e pl) = nextStartTime pl + d))"
proof (cases e)
  case (Arrives m t)
  with assms show ?thesis
    by (auto simp: arrival_fields)
next
  case (Decoded i d)
  show ?thesis
  proof (cases "i < length (decoding pl)")
    case True
    then have "decoding pl ! i \<in> set (decoding pl)" by simp
    with assms(2) have quiet: "\<not> decoding pl ! i" by blast
    have "set (take i (decoding pl) @ drop (Suc i) (decoding pl)) \<subseteq> set (decoding pl)"
      using set_take_subset [of i "decoding pl"] set_drop_subset [of "Suc i" "decoding pl"]
      by auto
    with assms(2) have "\<forall>b \<in> set (take i (decoding pl) @ drop (Suc i) (decoding pl)). \<not> b"
      by blast
    with True quiet show ?thesis
      using onmessage_resume_fields [of i pl d] by (simp add: Decoded)
  next
    case False
    with assms(2) show ?thesis by (simp add: Decoded onmessage_resume_def)
  qed
next
  case (DecodeFails i)
  have "set (take i (decoding pl) @ drop (Suc i) (decoding pl)) \<subseteq> set (decoding pl)"
    using set_take_subset [of i "decoding pl"] set_drop_subset [of "Suc i" "decoding pl"]
    by auto
  with assms(2) have "\<forall>b \<in> set (take i (decoding pl) @ drop (Suc i) (decoding pl)). \<not> b"
    by blast
  with assms(2) show ?thesis by (auto simp: DecodeFails onmessage_abort_def)
next
  case (Ended h)
  with assms(2) show ?thesis by (simp add: ended_def)
qed

lemma started_audio_step: "\<exists>ys. started (audio_step e pl) = started pl @ ys"
proof (cases e)
  case (Arrives m t)
  then show ?thesis by (simp add: arrival_fields)
next
  case (Decoded i d)
  then show ?thesis
    using onmessage_resume_fields [of i pl d]
    by (cases "i < length (decoding pl)") (simp_all add: onmessage_resume_def)
next
  case (DecodeFails i)
  then show ?thesis by (simp add: onmessage_abort_def)
next
  case (Ended h)
  then show ?thesis by (simp add: ended_def)
qed

lemma started_audio_run: "\<exists>ys. started (audio_run es pl) = started pl @ ys"
proof (induction es arbitrary: pl)
  case Nil
  show ?case by simp
next
  case (Cons e es)
  from started_audio_step [of e pl] obtain ys1
    where "started (audio_step e pl) = started pl @ ys1" by blast
  moreover from Cons [of "audio_step e pl"] obtain ys2
    where "started (audio_run es (audio_step e pl)) = started (audio_step e pl) @ ys2"
    by blast
  ultimately show ?case by simp
qed

lemma no_overlap_Cons:
  "no_overlap ((n, s, d) # es)
   = (no_overlap es \<and> (case es of [] \<Rightarrow> True | (n', s', d') # r \<Rightarrow> s + d \<le> s'))"
  by (cases es) auto

lemma starts_ascending_Cons:
  "starts_ascending ((n, s, d) # es)
   = (starts_ascending es \<and> (case es of [] \<Rightarrow> True | (n', s', d') # r \<Rightarrow> s \<le> s'))"
  by (cases es) auto

lemma audio_run_no_overlap:
  assumes "\<forall>e \<in> set es. \<not> interrupting e" and "\<forall>b \<in> set (decoding pl). \<not> b"
  shows "no_overlap (drop (length (started pl)) (started (audio_run es pl)))
    \<and> (case drop (length (started pl)) (started (audio_run es pl)) of
          [] \<Rightarrow> True | (n, s, d) # r \<Rightarrow> nextStartTime pl \<le> s)"
  using assms
proof (induction es arbitrary: pl)
  case Nil
  show ?case by simp
next
  case (Cons e es)
  let ?pl = "audio_step e pl"
  let ?new = "drop (length (started ?pl)) (started (audio_run es ?pl))"
  from Cons.prems have e: "\<not> interrupting e" and es: "\<forall>e \<in> set es. \<not> interrupting e"
    by simp_all
  from audio_step_schedule [OF e Cons.prems(2)]
  have quiet: "\<forall>b \<in> set (decoding ?pl). \<not> b"
    and sched: "started ?pl = started pl \<and> nextStartTime pl \<le> nextStartTime ?pl
       \<or> (\<exists>d. started ?pl = started pl @ [(created pl, nextStartTime pl, d)]
             \<and> nextStartTime ?pl = nextStartTime pl + d)"
    by blast+
  from Cons.IH [OF es quiet]
  have ih: "no_overlap ?new
      \<and> (case ?new of [] \<Rightarrow> True | (n, s, d) # r \<Rightarrow> nextStartTime ?pl \<le> s)" .
  from started_audio_run [of es ?pl] obtain ys
    where ys: "started (audio_run es ?pl) = started ?pl @ ys" by blast
  from sched show ?case
  proof
    assume same: "started ?pl = started pl \<and> nextStartTime pl \<le> nextStartTime ?pl"
    then have "drop (length (started pl)) (started (audio_run (e # es) pl)) = ?new"
      by simp
    with ih same show ?thesis by (auto split: list.splits)
  next
    assume "\<exists>d. started ?pl = started pl @ [(created pl, nextStartTime pl, d)]
             \<and> nextStartTime ?pl = nextStartTime pl + d"
    then obtain d where d: "started ?pl = started pl @ [(created pl, nextStartTime pl, d)]"
      and c: "nextStartTime ?pl = nextStartTime pl + d" by blast
    have new: "?new = ys" by (simp add: ys)
    have split: "drop (length (started pl)) (started (audio_run (e # es) pl))
        = (created pl, nextStartTime pl, d) # ys"
      by (simp add: ys d)
    from ih show ?thesis
      unfolding split no_overlap_Cons new c by (auto split: list.splits)
  qed
qed

lemma audio_run_ascending:
  fixes pl :: "'t::{linorder,plus,zero} playback"
  assumes "\<forall>e \<in> set es. \<not> interrupting e" and "\<forall>b \<in> set (decoding pl). \<not> b"
    and mono: "\<forall>s d::'t. 0 \<le> d \<longrightarrow> s \<le> s + d"
    and "\<forall>(n, s, d) \<in> set (drop (length (started pl)) (started (audio_run es pl))). 0 \<le> d"
  shows "starts_ascending (drop (length (started pl)) (started (audio_run es pl)))
    \<and> (case drop (length (started pl)) (started (audio_run es pl)) of
          [] \<Rightarrow> True | (n, s, d) # r \<Rightarrow> nextStartTime pl \<le> s)
    \<and> nextStartTime pl \<le> nextStartTime (audio_run es pl)"
  using assms(1,2,4)
proof (induction es arbitrary: pl)
  case Nil
  show ?case by simp
next
  case (Cons e es)
  let ?pl = "audio_step e pl"
  let ?new = "drop (length (started ?pl)) (started (audio_run es ?pl))"
  have run: "audio_run (e # es) pl = audio_run es ?pl" by simp
  from Cons.prems have e: "\<not> interrupting e" and es: "\<forall>e \<in> set es. \<not> interrupting e"
    by simp_all
  from audio_step_schedule [OF e Cons.prems(2)]
  have quiet: "\<forall>b \<in> set (decoding ?pl). \<not> b"
    and sched: "started ?pl = started pl \<and> nextStartTime pl \<le> nextStartTime ?pl
       \<or> (\<exists>d. started ?pl = started pl @ [(created pl, nextStartTime pl, d)]
             \<and> nextStartTime ?pl = nextStartTime pl + d)"
    by blast+
  from started_audio_run [of es ?pl] obtain ys
    where ys: "started (audio_run es ?pl) = started ?pl @ ys" by blast
  have new: "?new = ys" unfolding ys by simp
  from sched show ?case
  proof
    assume same: "started ?pl = started pl \<and> nextStartTime pl \<le> nextStartTime ?pl"
    have tot: "drop (length (started pl)) (started (audio_run (e # es) pl)) = ys"
      unfolding run ys using same by simp
    from Cons.prems(3) have "\<forall>(n, s, d) \<in> set ys. 0 \<le> d"
      unfolding tot .
    then have rest: "\<forall>(n, s, d) \<in> set ?new. 0 \<le> d"
      unfolding new .
    from Cons.IH [OF es quiet rest]
    have ih: "starts_ascending ys
        \<and> (case ys of [] \<Rightarrow> True | (n, s, d) # r \<Rightarrow> nextStartTime ?pl \<le> s)
        \<and> nextStartTime ?pl \<le> nextStartTime (audio_run es ?pl)"
      unfolding new .
    from same have up: "nextStartTime pl \<le> nextStartTime ?pl" by blast
    from ih up show ?thesis
      unfolding tot unfolding run by (cases ys) auto
  next
    assume "\<exists>d. started ?pl = started pl @ [(created pl, nextStartTime pl, d)]
             \<and> nextStartTime ?pl = nextStartTime pl + d"
    then obtain d where d: "started ?pl = started pl @ [(created pl, nextStartTime pl, d)]"
      and c: "nextStartTime ?pl = nextStartTime pl + d" by blast
    have tot: "drop (length (started pl)) (started (audio_run (e # es) pl))
        = (created pl, nextStartTime pl, d) # ys"
      unfolding run ys d by simp
    from Cons.prems(3) have all: "\<forall>(n, s, d) \<in> set ((created pl, nextStartTime pl, d) # ys). 0 \<le> d"
      unfolding tot .
    then have pos: "0 \<le> d" by simp
    from all have "\<forall>(n, s, d) \<in> set ys. 0 \<le> d" by simp
    then have rest: "\<forall>(n, s, d) \<in> set ?new. 0 \<le> d"
      unfolding new .
    from mono [rule_format, OF pos] have up: "nextStartTime pl \<le> nextStartTime ?pl"
      unfolding c .
    from Cons.IH [OF es quiet rest]
    have ih: "starts_ascending ys
        \<and> (case ys of [] \<Rightarrow> True | (n, s, d) # r \<Rightarrow> nextStartTime ?pl \<le> s)
        \<and> nextStartTime ?pl \<le> nextStartTime (audio_run es ?pl)"
      unfolding new .
    from ih up show ?thesis
      unfolding tot starts_ascending_Cons unfolding run by (cases ys) auto
  qed
qed

text \<open>The steps on a playback state that is written out, for calculating examples.\<close>

lemma chunk_arrives:
  "base64Audio \<noteq> [] \<Longrightarrow>
   audio_step (Arrives (AudioChunk base64Audio) t)
     \<lparr>nextStartTime = c, sources = ss, created = k, started = st, stopped = sp,
        decoding = ds\<rparr>
   = \<lparr>nextStartTime = max c t, sources = ss, created = k, started = st, stopped = sp,
        decoding = ds @ [False]\<rparr>"
  by (simp add: onmessage_audio_def AudioChunk_def no_content_def has_audio_def
      enqueue_begin_def)

lemma oldest_decoded:
  "audio_step (Decoded 0 d)
     \<lparr>nextStartTime = c, sources = ss, created = k, started = st, stopped = sp,
        decoding = False # ds\<rparr>
   = \<lparr>nextStartTime = c + d, sources = set_add k ss, created = Suc k,
        started = st @ [(k, c, d)], stopped = sp, decoding = ds\<rparr>"
  by (simp add: onmessage_resume_def enqueue_finish_def Let_def)

text \<open>
  C2, as the claim states it, fails when two audio messages overlap. Both arrive, at
  clock times 0 and 0.2, before the first decoding returns: the cursor and the clock read
  0 when the first arrives, yet its chunk is started at 0.2, the cursor the second
  arrival has left.
\<close>

theorem overlapping_chunk_start_counterexample:
  "started (audio_run [Arrives (AudioChunk ''UklGRg=='') 0,
       Arrives (AudioChunk ''UklGRg=='') (1/5), Decoded 0 1]
      (playback_init :: real playback)) = [(0, 1/5, 1)]
   \<and> max (nextStartTime (playback_init :: real playback)) 0 \<noteq> 1/5"
  by (simp del: audio_step.simps add: playback_init_def chunk_arrives oldest_decoded)

text \<open>
  C2, amended. When a message with audio arrives the cursor is raised to the clock; when
  its decoding returns, its chunk is started at the cursor as it is then, the cursor
  moves to that start plus the chunk's duration and the new node enters \<^verbatim>\<open>sources\<close>.
  If nothing else is handled in between, the start is the maximum of the cursor and the
  clock read at the arrival. For every interleaving of arrivals, decodings that return or
  throw, and completions, with no interruption, each chunk scheduled begins no earlier
  than the one scheduled before it ends; and when adding a non-negative duration lowers no
  time and no scheduled buffer has a negative duration, the start times never go back and
  neither does the cursor, so that a chunk never starts before the maximum read at its
  arrival.
\<close>

theorem chunks_gapless:
  fixes pl :: "'t::{linorder,plus,zero} playback"
  shows
  "(base64Audio \<noteq> [] \<longrightarrow>
      started (audio_run [Arrives (AudioChunk base64Audio) t,
                 Decoded (length (decoding pl)) d] pl)
        = started pl @ [(created pl, max (nextStartTime pl) t, d)]
      \<and> nextStartTime (audio_run [Arrives (AudioChunk base64Audio) t,
                 Decoded (length (decoding pl)) d] pl)
        = max (nextStartTime pl) t + d
      \<and> sources (audio_run [Arrives (AudioChunk base64Audio) t,
                 Decoded (length (decoding pl)) d] pl)
        = set_add (created pl) (sources pl)
      \<and> decoding (audio_run [Arrives (AudioChunk base64Audio) t,
                 Decoded (length (decoding pl)) d] pl)
        = decoding pl
      \<and> nextStartTime (audio_step (Arrives (AudioChunk base64Audio) t) pl)
        = max (nextStartTime pl) t)
   \<and> (i < length (decoding pl) \<longrightarrow>
        started (audio_step (Decoded i d) pl)
          = started pl @ [(created pl, nextStartTime pl, d)]
        \<and> (\<not> decoding pl ! i \<longrightarrow>
             nextStartTime (audio_step (Decoded i d) pl) = nextStartTime pl + d
             \<and> sources (audio_step (Decoded i d) pl) = set_add (created pl) (sources pl)))
   \<and> ((\<forall>e \<in> set es. \<not> interrupting e) \<and> (\<forall>b \<in> set (decoding pl). \<not> b) \<longrightarrow>
        no_overlap (drop (length (started pl)) (started (audio_run es pl))))
   \<and> ((\<forall>e \<in> set es. \<not> interrupting e) \<and> (\<forall>b \<in> set (decoding pl). \<not> b)
        \<and> (\<forall>s d::'t. 0 \<le> d \<longrightarrow> s \<le> s + d)
        \<and> (\<forall>(n, s, d) \<in> set (drop (length (started pl)) (started (audio_run es pl))). 0 \<le> d)
        \<longrightarrow> starts_ascending (drop (length (started pl)) (started (audio_run es pl)))
            \<and> nextStartTime pl \<le> nextStartTime (audio_run es pl))"
proof -
  let ?arrived = "onmessage_audio (AudioChunk base64Audio) t pl"
  have c1: "base64Audio \<noteq> [] \<longrightarrow>
      started (audio_run [Arrives (AudioChunk base64Audio) t,
                 Decoded (length (decoding pl)) d] pl)
        = started pl @ [(created pl, max (nextStartTime pl) t, d)]
      \<and> nextStartTime (audio_run [Arrives (AudioChunk base64Audio) t,
                 Decoded (length (decoding pl)) d] pl)
        = max (nextStartTime pl) t + d
      \<and> sources (audio_run [Arrives (AudioChunk base64Audio) t,
                 Decoded (length (decoding pl)) d] pl)
        = set_add (created pl) (sources pl)
      \<and> decoding (audio_run [Arrives (AudioChunk base64Audio) t,
                 Decoded (length (decoding pl)) d] pl)
        = decoding pl
      \<and> nextStartTime (audio_step (Arrives (AudioChunk base64Audio) t) pl)
        = max (nextStartTime pl) t"
  proof
    assume "base64Audio \<noteq> []"
    then have audio: "has_audio (AudioChunk base64Audio)"
      and calm: "\<not> interrupted (AudioChunk base64Audio)"
      by (simp_all add: has_audio_def AudioChunk_def no_content_def)
    from audio calm arrival_fields [of "AudioChunk base64Audio" t pl]
    have arrived: "decoding ?arrived = decoding pl @ [False]
        \<and> nextStartTime ?arrived = max (nextStartTime pl) t
        \<and> started ?arrived = started pl \<and> created ?arrived = created pl
        \<and> sources ?arrived = sources pl"
      by simp
    then have place: "length (decoding pl) < length (decoding ?arrived)
        \<and> \<not> decoding ?arrived ! length (decoding pl)"
      by simp
    with arrived onmessage_resume_fields [of "length (decoding pl)" ?arrived d]
    have "started (onmessage_resume (length (decoding pl)) d ?arrived)
          = started pl @ [(created pl, max (nextStartTime pl) t, d)]
        \<and> nextStartTime (onmessage_resume (length (decoding pl)) d ?arrived)
          = max (nextStartTime pl) t + d
        \<and> sources (onmessage_resume (length (decoding pl)) d ?arrived)
          = set_add (created pl) (sources pl)
        \<and> decoding (onmessage_resume (length (decoding pl)) d ?arrived) = decoding pl"
      by simp
    with arrived show "started (audio_run [Arrives (AudioChunk base64Audio) t,
                 Decoded (length (decoding pl)) d] pl)
        = started pl @ [(created pl, max (nextStartTime pl) t, d)]
      \<and> nextStartTime (audio_run [Arrives (AudioChunk base64Audio) t,
                 Decoded (length (decoding pl)) d] pl)
        = max (nextStartTime pl) t + d
      \<and> sources (audio_run [Arrives (AudioChunk base64Audio) t,
                 Decoded (length (decoding pl)) d] pl)
        = set_add (created pl) (sources pl)
      \<and> decoding (audio_run [Arrives (AudioChunk base64Audio) t,
                 Decoded (length (decoding pl)) d] pl)
        = decoding pl
      \<and> nextStartTime (audio_step (Arrives (AudioChunk base64Audio) t) pl)
        = max (nextStartTime pl) t"
      by simp
  qed
  have c2: "i < length (decoding pl) \<longrightarrow>
        started (audio_step (Decoded i d) pl)
          = started pl @ [(created pl, nextStartTime pl, d)]
        \<and> (\<not> decoding pl ! i \<longrightarrow>
             nextStartTime (audio_step (Decoded i d) pl) = nextStartTime pl + d
             \<and> sources (audio_step (Decoded i d) pl) = set_add (created pl) (sources pl))"
    using onmessage_resume_fields [of i pl d] by simp
  have c3: "(\<forall>e \<in> set es. \<not> interrupting e) \<and> (\<forall>b \<in> set (decoding pl). \<not> b) \<longrightarrow>
        no_overlap (drop (length (started pl)) (started (audio_run es pl)))"
    using audio_run_no_overlap [of es pl] by blast
  have c4: "(\<forall>e \<in> set es. \<not> interrupting e) \<and> (\<forall>b \<in> set (decoding pl). \<not> b)
        \<and> (\<forall>s d::'t. 0 \<le> d \<longrightarrow> s \<le> s + d)
        \<and> (\<forall>(n, s, d) \<in> set (drop (length (started pl)) (started (audio_run es pl))). 0 \<le> d)
        \<longrightarrow> starts_ascending (drop (length (started pl)) (started (audio_run es pl)))
            \<and> nextStartTime pl \<le> nextStartTime (audio_run es pl)"
    using audio_run_ascending [of es pl] by blast
  show ?thesis
    by (intro conjI) (fact c1 c2 c3 c4)+
qed

text \<open>
  Three buffers of 1, 0.5 and 0.3 seconds arrive at clock times 0, 0.2 and 5. When the
  second arrives before the first is decoded they start at 0.2, 1.2 and 5; when each is
  decoded before the next arrives, at 0, 1 and 5.
\<close>

theorem chunks_gapless_witness:
  "started (audio_run [Arrives (AudioChunk ''UklGRg=='') 0,
       Arrives (AudioChunk ''UklGRg=='') (1/5), Decoded 0 1, Decoded 0 (1/2),
       Arrives (AudioChunk ''UklGRg=='') 5, Decoded 0 (3/10)] (playback_init :: real playback))
     = [(0, 1/5, 1), (1, 6/5, 1/2), (2, 5, 3/10)]
   \<and> no_overlap (drop (length (started (playback_init :: real playback)))
        (started (audio_run [Arrives (AudioChunk ''UklGRg=='') 0,
           Arrives (AudioChunk ''UklGRg=='') (1/5), Decoded 0 1, Decoded 0 (1/2),
           Arrives (AudioChunk ''UklGRg=='') 5, Decoded 0 (3/10)]
           (playback_init :: real playback))))
   \<and> starts_ascending (drop (length (started (playback_init :: real playback)))
        (started (audio_run [Arrives (AudioChunk ''UklGRg=='') 0,
           Arrives (AudioChunk ''UklGRg=='') (1/5), Decoded 0 1, Decoded 0 (1/2),
           Arrives (AudioChunk ''UklGRg=='') 5, Decoded 0 (3/10)]
           (playback_init :: real playback))))
   \<and> started (audio_run [Arrives (AudioChunk ''UklGRg=='') 0, Decoded 0 1,
       Arrives (AudioChunk ''UklGRg=='') (1/5), Decoded 0 (1/2),
       Arrives (AudioChunk ''UklGRg=='') 5, Decoded 0 (3/10)] (playback_init :: real playback))
     = [(0, 0, 1), (1, 1, 1/2), (2, 5, 3/10)]
   \<and> started (audio_run [Arrives (AudioChunk ''UklGRg=='') (1/5),
       Decoded (length (decoding (playback_init :: real playback))) 1]
       (playback_init :: real playback))
     = [(0, 1/5, 1)]
   \<and> started (audio_step (Decoded 0 1)
        (audio_step (Arrives (AudioChunk ''UklGRg=='') (1/5)) (playback_init :: real playback)))
     = [(0, 1/5, 1)]"
proof -
  let ?es = "[Arrives (AudioChunk ''UklGRg=='') 0,
       Arrives (AudioChunk ''UklGRg=='') (1/5), Decoded 0 1, Decoded 0 (1/2),
       Arrives (AudioChunk ''UklGRg=='') 5, Decoded 0 (3/10)] :: real audio_event list"
  let ?serial = "[Arrives (AudioChunk ''UklGRg=='') 0, Decoded 0 1,
       Arrives (AudioChunk ''UklGRg=='') (1/5), Decoded 0 (1/2),
       Arrives (AudioChunk ''UklGRg=='') 5, Decoded 0 (3/10)] :: real audio_event list"
  let ?init = "playback_init :: real playback"
  let ?arrived = "audio_step (Arrives (AudioChunk ''UklGRg=='') (1/5)) ?init"
  have e: "started (audio_run ?es ?init) = [(0, 1/5, 1), (1, 6/5, 1/2), (2, 5, 3/10)]"
    by (simp del: audio_step.simps
        add: playback_init_def chunk_arrives oldest_decoded set_add_def)
  have s: "started (audio_run ?serial ?init) = [(0, 0, 1), (1, 1, 1/2), (2, 5, 3/10)]"
    by (simp del: audio_step.simps
        add: playback_init_def chunk_arrives oldest_decoded set_add_def)
  have a: "?arrived = \<lparr>nextStartTime = 1/5, sources = [], created = 0, started = [],
      stopped = [], decoding = [False]\<rparr>"
    by (simp del: audio_step.simps add: playback_init_def chunk_arrives)
  have i: "started ?init = [] \<and> created ?init = 0 \<and> nextStartTime ?init = 0"
    by (simp add: playback_init_def)
  have h0: "''UklGRg=='' \<noteq> []"
    by simp
  have h1: "\<forall>e \<in> set ?es. \<not> interrupting e"
    by (simp add: AudioChunk_def no_content_def)
  have h2: "\<forall>b \<in> set (decoding ?init). \<not> b"
    by (simp add: playback_init_def)
  have h3: "\<forall>s d::real. 0 \<le> d \<longrightarrow> s \<le> s + d"
    by simp
  have h4: "\<forall>(n, s, d) \<in> set (drop (length (started ?init)) (started (audio_run ?es ?init))).
      0 \<le> d"
    unfolding e by (simp add: playback_init_def)
  have h5: "0 < length (decoding ?arrived) \<and> \<not> decoding ?arrived ! 0"
    unfolding a by simp
  from h1 h2 h3 h4 chunks_gapless [where pl = ?init and es = ?es]
  have r: "no_overlap (drop (length (started ?init)) (started (audio_run ?es ?init)))
      \<and> starts_ascending (drop (length (started ?init)) (started (audio_run ?es ?init)))"
    by blast
  from h0 chunks_gapless [where pl = ?init and base64Audio = "''UklGRg==''" and t = "1/5"
      and d = 1]
  have "started (audio_run [Arrives (AudioChunk ''UklGRg=='') (1/5),
       Decoded (length (decoding ?init)) 1] ?init)
      = started ?init @ [(created ?init, max (nextStartTime ?init) (1/5), 1)]"
    by blast
  then have one: "started (audio_run [Arrives (AudioChunk ''UklGRg=='') (1/5),
       Decoded (length (decoding ?init)) 1] ?init) = [(0, 1/5, 1)]"
    unfolding i [THEN conjunct1] i [THEN conjunct2, THEN conjunct1]
      i [THEN conjunct2, THEN conjunct2]
    by simp
  from h5 chunks_gapless [where pl = ?arrived and i = 0 and d = 1]
  have "started (audio_step (Decoded 0 1) ?arrived)
      = started ?arrived @ [(created ?arrived, nextStartTime ?arrived, 1)]"
    by blast
  then have d: "started (audio_step (Decoded 0 1) ?arrived) = [(0, 1/5, 1)]"
    unfolding a by simp
  from e s r one d show ?thesis by blast
qed

text \<open>
  A decoding that is in flight when the interruption is handled is not yet in
  \<^verbatim>\<open>sources\<close> and is not stopped: when it returns, its chunk is started at the cursor,
  which the interruption has set to 0, and its node enters \<^verbatim>\<open>sources\<close>.
\<close>

lemma decoding_across_interruption:
  "audio_run [Arrives Interrupted t, Decoded 0 d]
     \<lparr>nextStartTime = c, sources = ss, created = k, started = st, stopped = sp,
        decoding = False # ds\<rparr>
   = \<lparr>nextStartTime = 0 + d, sources = [k], created = Suc k, started = st @ [(k, 0, d)],
        stopped = sp @ ss, decoding = ds\<rparr>"
  by (simp add: onmessage_audio_def Interrupted_def no_content_def has_audio_def
      interrupt_def stop_each_fields onmessage_resume_def enqueue_finish_def set_add_def
      Let_def)

section \<open>Interruption touches playback only\<close>

text \<open>
  C10. A message that carries only \<^verbatim>\<open>interrupted\<close> leaves the whole component state as
  it was: the committed transcript, the current turn, \<^verbatim>\<open>isSessionActive\<close>, the device
  flags and everything else. In any message, whether \<^verbatim>\<open>interrupted\<close> is set makes no
  difference to the component state. Of the playback locals the interruption changes
  \<^verbatim>\<open>sources\<close> and \<^verbatim>\<open>nextStartTime\<close> (and stops nodes); it starts and creates none.
\<close>

theorem interruption_frame:
  "fst (onmessage captured Interrupted currentTime (c, pl)) = c
   \<and> fst (onmessage captured (m\<lparr>interrupted := True\<rparr>) currentTime (c, pl))
       = fst (onmessage captured (m\<lparr>interrupted := False\<rparr>) currentTime (c, pl))
   \<and> started (snd (onmessage captured Interrupted currentTime (c, pl))) = started pl
   \<and> created (snd (onmessage captured Interrupted currentTime (c, pl))) = created pl"
  by (simp add: onmessage_def onmessage_transcript_def onmessage_audio_def Interrupted_def
      no_content_def has_audio_def interrupt_fields Let_def)

section \<open>Transcript\<close>

text \<open>
  C3 on the code. A session is started from the freshly mounted component, so the closure
  of \<^verbatim>\<open>onmessage\<close> holds the empty turn. The user delta \<^verbatim>\<open>hi\<close> and the model delta
  \<^verbatim>\<open>hello\<close> arrive and are appended to the current turn. At \<^verbatim>\<open>turnComplete\<close> the code
  commits the captured \<^verbatim>\<open>currentSpokenText\<close>, the empty turn, and resets the current turn:
  the deltas reach no committed turn.
\<close>

theorem turnComplete_commits_captured_turn:
  "currentSpokenText (onmessage_all (startSession_captures mounted)
          [InputTranscriptDelta ''hi'', OutputTranscriptDelta ''hello'']
          (onopen (startSession (Some ''key'') True mounted)))
     = \<lparr>user = ''hi'', model = ''hello''\<rparr>
   \<and> transcription (onmessage_all (startSession_captures mounted)
          [InputTranscriptDelta ''hi'', OutputTranscriptDelta ''hello'', TurnComplete]
          (onopen (startSession (Some ''key'') True mounted)))
     = [\<lparr>user = [], model = []\<rparr>]
   \<and> currentSpokenText (onmessage_all (startSession_captures mounted)
          [InputTranscriptDelta ''hi'', OutputTranscriptDelta ''hello'', TurnComplete]
          (onopen (startSession (Some ''key'') True mounted)))
     = \<lparr>user = [], model = []\<rparr>"
  by (simp add: startSession_captures_def mounted_def empty_turn_def startSession_def
      key_set_def onopen_def onmessage_transcript_def InputTranscriptDelta_def
      OutputTranscriptDelta_def TurnComplete_def no_content_def Let_def)

text \<open>What a message adds to the committed transcript never depends on the deltas.\<close>

lemma commit_ignores_deltas:
  "transcription (onmessage_transcript captured m c)
     = (if turnComplete m then transcription c @ [captured] else transcription c)"
  by (simp add: onmessage_transcript_def Let_def split: option.splits)

section \<open>Teardown and the session record\<close>

lemma summary_records_any_state:
  "snd (generateAndSaveSummary api_key outcome now fullTranscription c)
   = snd (generateAndSaveSummary api_key outcome now fullTranscription c')"
  by (simp add: generateAndSaveSummary_def Let_def split: generate_result.splits option.splits prod.splits)

lemma stopSession_records:
  "snd (stopSession committed current api_key outcome now c)
   = snd (generateAndSaveSummary api_key outcome now (finalTranscription committed current) c)"
  unfolding stopSession_def Let_def snd_conv
  by (rule summary_records_any_state)

text \<open>
  What \<^verbatim>\<open>stopSession\<close> hands to \<^verbatim>\<open>generateAndSaveSummary\<close>: the committed turns of its
  closure, followed by the closure's current turn when that has text in either field.
  The closure of the Stop button holds the transcript and the current turn of the state.
\<close>

lemma stopSession_hands_flushed_turn:
  "(user current \<noteq> [] \<or> model current \<noteq> [] \<longrightarrow>
      flushPending current = [current]
      \<and> finalTranscription committed current = committed @ [current])
   \<and> (user current = [] \<and> model current = [] \<longrightarrow>
      flushPending current = [] \<and> finalTranscription committed current = committed)
   \<and> snd (stopSession committed current api_key outcome now c)
       = snd (generateAndSaveSummary api_key outcome now
               (finalTranscription committed current) c)
   \<and> snd (stop_clicked api_key outcome now c)
       = snd (generateAndSaveSummary api_key outcome now
               (finalTranscription (transcription c) (currentSpokenText c)) c)"
  by (simp add: stopSession_records stop_clicked_def)
     (simp add: flushPending_def finalTranscription_def)

text \<open>
  C7. When the summarizer call throws, with a non-empty transcript and the API key set,
  \<^verbatim>\<open>onSessionEnd\<close> is called once, with the title \<^verbatim>\<open>Session Log (Summary Failed)\<close>
  and the raw transcript text as content; so it is for the transcript that
  \<^verbatim>\<open>stopSession\<close> builds. The raw transcript text holds every turn, in order: a turn is
  written \<^verbatim>\<open>User: \<close>, the user's text, a line feed, \<^verbatim>\<open>Gemini: \<close>, the model's text,
  and two line feeds stand between one turn and the next.
\<close>

theorem summary_failure_fallback:
  "(fullTranscription \<noteq> [] \<and> key_set api_key \<longrightarrow>
      snd (generateAndSaveSummary api_key Throws now fullTranscription c)
      = [\<lparr>summary_id = fst now, title = ''Session Log (Summary Failed)'',
           content = transcriptText fullTranscription, date = snd now\<rparr>])
   \<and> (finalTranscription committed current \<noteq> [] \<and> key_set api_key \<longrightarrow>
      snd (stopSession committed current api_key Throws now c)
      = [\<lparr>summary_id = fst now, title = ''Session Log (Summary Failed)'',
           content = transcriptText (finalTranscription committed current),
           date = snd now\<rparr>])
   \<and> transcriptText [] = []
   \<and> transcriptText [t] = ''User: '' @ user t @ [CHR 0x0A] @ ''Gemini: '' @ model t
   \<and> transcriptText (t # u # rest)
       = ''User: '' @ user t @ [CHR 0x0A] @ ''Gemini: '' @ model t
         @ [CHR 0x0A, CHR 0x0A] @ transcriptText (u # rest)"
proof -
  have records: "(fullTranscription \<noteq> [] \<and> key_set api_key \<longrightarrow>
      snd (generateAndSaveSummary api_key Throws now fullTranscription c)
      = [\<lparr>summary_id = fst now, title = ''Session Log (Summary Failed)'',
           content = transcriptText fullTranscription, date = snd now\<rparr>])
   \<and> (finalTranscription committed current \<noteq> [] \<and> key_set api_key \<longrightarrow>
      snd (stopSession committed current api_key Throws now c)
      = [\<lparr>summary_id = fst now, title = ''Session Log (Summary Failed)'',
           content = transcriptText (finalTranscription committed current),
           date = snd now\<rparr>])"
    unfolding stopSession_records
    by (simp add: generateAndSaveSummary_def Let_def)
  have text0: "transcriptText [] = []"
    by (simp add: transcriptText_def)
  have text1: "transcriptText [t] = ''User: '' @ user t @ [CHR 0x0A] @ ''Gemini: '' @ model t"
    by (simp add: transcriptText_def turn_text_def)
  have text2: "transcriptText (t # u # rest)
       = ''User: '' @ user t @ [CHR 0x0A] @ ''Gemini: '' @ model t
         @ [CHR 0x0A, CHR 0x0A] @ transcriptText (u # rest)"
    by (simp add: transcriptText_def turn_text_def)
  from records text0 text1 text2 show ?thesis by blast
qed

theorem summary_failure_fallback_witness:
  "key_set (Some ''key'')
   \<and> snd (generateAndSaveSummary (Some ''key'') Throws (''i'', ''d'')
            [\<lparr>user = ''hi'', model = ''hello''\<rparr>, \<lparr>user = ''why'', model = ''so''\<rparr>,
             \<lparr>user = ''bye'', model = []\<rparr>] mounted)
      = [\<lparr>summary_id = ''i'', title = ''Session Log (Summary Failed)'',
           content = ''User: hi'' @ [CHR 0x0A] @ ''Gemini: hello'' @ [CHR 0x0A, CHR 0x0A]
             @ ''User: why'' @ [CHR 0x0A] @ ''Gemini: so'' @ [CHR 0x0A, CHR 0x0A]
             @ ''User: bye'' @ [CHR 0x0A] @ ''Gemini: '',
           date = ''d''\<rparr>]
   \<and> snd (stopSession [\<lparr>user = ''hi'', model = ''hello''\<rparr>, \<lparr>user = ''why'', model = ''so''\<rparr>]
            \<lparr>user = ''bye'', model = []\<rparr> (Some ''key'') Throws (''i'', ''d'') mounted)
      = [\<lparr>summary_id = ''i'', title = ''Session Log (Summary Failed)'',
           content = ''User: hi'' @ [CHR 0x0A] @ ''Gemini: hello'' @ [CHR 0x0A, CHR 0x0A]
             @ ''User: why'' @ [CHR 0x0A] @ ''Gemini: so'' @ [CHR 0x0A, CHR 0x0A]
             @ ''User: bye'' @ [CHR 0x0A] @ ''Gemini: '',
           date = ''d''\<rparr>]"
proof -
  let ?t1 = "\<lparr>user = ''hi'', model = ''hello''\<rparr>"
  let ?t2 = "\<lparr>user = ''why'', model = ''so''\<rparr>"
  let ?t3 = "\<lparr>user = ''bye'', model = []\<rparr>"
  have k: "key_set (Some ''key'')"
    by (simp add: key_set_def)
  have f: "finalTranscription [?t1, ?t2] ?t3 = [?t1, ?t2, ?t3]"
    by (simp add: finalTranscription_def flushPending_def)
  have h1: "[?t1, ?t2, ?t3] \<noteq> [] \<and> key_set (Some ''key'')"
    using k by simp
  have h2: "finalTranscription [?t1, ?t2] ?t3 \<noteq> [] \<and> key_set (Some ''key'')"
    using k unfolding f by simp
  note inst = summary_failure_fallback
    [where fullTranscription = "[?t1, ?t2, ?t3]" and api_key = "Some ''key''"
       and now = "(''i'', ''d'')" and c = mounted and committed = "[?t1, ?t2]"
       and current = ?t3]
  have t3: "transcriptText [?t3] = ''User: bye'' @ [CHR 0x0A] @ ''Gemini: ''"
    using inst [where t = ?t3] by simp
  have t2: "transcriptText [?t2, ?t3]
      = ''User: why'' @ [CHR 0x0A] @ ''Gemini: so'' @ [CHR 0x0A, CHR 0x0A]
        @ transcriptText [?t3]"
    using inst [where t = ?t2 and u = ?t3 and rest = "[]"] by simp
  have t1: "transcriptText [?t1, ?t2, ?t3]
      = ''User: hi'' @ [CHR 0x0A] @ ''Gemini: hello'' @ [CHR 0x0A, CHR 0x0A]
        @ transcriptText [?t2, ?t3]"
    using inst [where t = ?t1 and u = ?t2 and rest = "[?t3]"] by simp
  have a: "snd (generateAndSaveSummary (Some ''key'') Throws (''i'', ''d'')
            [?t1, ?t2, ?t3] mounted)
      = [\<lparr>summary_id = ''i'', title = ''Session Log (Summary Failed)'',
           content = transcriptText [?t1, ?t2, ?t3], date = ''d''\<rparr>]"
    using h1 inst [where t = ?t1 and u = ?t2 and rest = "[?t3]"] by simp
  have b: "snd (stopSession [?t1, ?t2] ?t3 (Some ''key'') Throws (''i'', ''d'') mounted)
      = [\<lparr>summary_id = ''i'', title = ''Session Log (Summary Failed)'',
           content = transcriptText (finalTranscription [?t1, ?t2] ?t3), date = ''d''\<rparr>]"
    using h2 inst [where t = ?t1 and u = ?t2 and rest = "[?t3]"] by simp
  from k a b show ?thesis
    unfolding f t1 t2 t3 by simp
qed

text \<open>
  C9. With an empty final transcript, or with no API key, \<^verbatim>\<open>generateAndSaveSummary\<close>
  returns at once: the state is untouched and \<^verbatim>\<open>onSessionEnd\<close> is not called, whatever
  the summarizer would have done; \<^verbatim>\<open>stopSession\<close> then yields no record.
\<close>

theorem no_record_without_transcript_or_key:
  "(fullTranscription = [] \<or> \<not> key_set api_key \<longrightarrow>
      generateAndSaveSummary api_key outcome now fullTranscription c = (c, []))
   \<and> (finalTranscription committed current = [] \<or> \<not> key_set api_key \<longrightarrow>
      snd (stopSession committed current api_key outcome now c) = [])"
  unfolding stopSession_records
  by (simp add: generateAndSaveSummary_def)

theorem no_record_without_transcript_or_key_witness:
  "(([]::turn list) = [] \<or> \<not> key_set (Some ''key''))
   \<and> generateAndSaveSummary (Some ''key'') Throws (''i'', ''d'') [] mounted = (mounted, [])
   \<and> ([\<lparr>user = ''hi'', model = []\<rparr>] = [] \<or> \<not> key_set None)
   \<and> generateAndSaveSummary None (Responds ''x'' None) (''i'', ''d'')
        [\<lparr>user = ''hi'', model = []\<rparr>] mounted = (mounted, [])
   \<and> (finalTranscription [] empty_turn = [] \<or> \<not> key_set (Some ''key''))
   \<and> snd (stopSession [] empty_turn (Some ''key'') (Responds ''x'' None) (''i'', ''d'')
            mounted) = []"
proof -
  have h1: "([]::turn list) = [] \<or> \<not> key_set (Some ''key'')" by simp
  have h2: "[\<lparr>user = ''hi'', model = []\<rparr>] = [] \<or> \<not> key_set None"
    by (simp add: key_set_def)
  have h3: "finalTranscription [] empty_turn = [] \<or> \<not> key_set (Some ''key'')"
    by (simp add: finalTranscription_def flushPending_def empty_turn_def)
  from h1 no_record_without_transcript_or_key
    [of "[]" "Some ''key''" Throws "(''i'', ''d'')" mounted "[]" empty_turn]
  have a: "generateAndSaveSummary (Some ''key'') Throws (''i'', ''d'') [] mounted
      = (mounted, [])"
    by blast
  from h2 no_record_without_transcript_or_key
    [of "[\<lparr>user = ''hi'', model = []\<rparr>]" None "Responds ''x'' None" "(''i'', ''d'')" mounted
        "[]" empty_turn]
  have b: "generateAndSaveSummary None (Responds ''x'' None) (''i'', ''d'')
        [\<lparr>user = ''hi'', model = []\<rparr>] mounted = (mounted, [])"
    by blast
  from h3 no_record_without_transcript_or_key
    [of "[]" "Some ''key''" "Responds ''x'' None" "(''i'', ''d'')" mounted "[]" empty_turn]
  have c: "snd (stopSession [] empty_turn (Some ''key'') (Responds ''x'' None)
            (''i'', ''d'') mounted) = []"
    by blast
  from h1 h2 h3 a b c show ?thesis by blast
qed

section \<open>Stopping twice\<close>

lemma stopAllStreams_refs:
  "mediaStreamRef (stopAllStreams c) = None
   \<and> frameIntervalRef (stopAllStreams c) = None
   \<and> videoRef (stopAllStreams c) = (case videoRef c of None \<Rightarrow> None | Some src \<Rightarrow> Some None)"
  by (simp add: stopAllStreams_def Let_def split: option.splits)

lemma stopAllStreams_idle:
  "mediaStreamRef c = None \<Longrightarrow> frameIntervalRef c = None
   \<Longrightarrow> videoRef c = None \<or> videoRef c = Some None \<Longrightarrow> stopAllStreams c = c"
  by (auto simp: stopAllStreams_def Let_def split: option.splits)

lemma stopAllStreams_twice: "stopAllStreams (stopAllStreams c) = stopAllStreams c"
  by (rule stopAllStreams_idle) (auto simp: stopAllStreams_refs split: option.splits)

lemma generateAndSaveSummary_state:
  "(fst (generateAndSaveSummary api_key outcome now fullTranscription c))
      \<lparr>transcription := t, currentSpokenText := u, status := x\<rparr>
   = c\<lparr>transcription := t, currentSpokenText := u, status := x\<rparr>"
  by (simp add: generateAndSaveSummary_def Let_def
      split: generate_result.splits option.splits prod.splits)

lemma stopSession_result:
  "isSessionActive (fst (stopSession committed current api_key outcome now c)) = False
   \<and> isMicOn (fst (stopSession committed current api_key outcome now c)) = False
   \<and> isCameraOn (fst (stopSession committed current api_key outcome now c)) = False
   \<and> isScreenOn (fst (stopSession committed current api_key outcome now c)) = False
   \<and> isAnnotating (fst (stopSession committed current api_key outcome now c)) = False
   \<and> status (fst (stopSession committed current api_key outcome now c)) = ''Session ended.''
   \<and> transcription (fst (stopSession committed current api_key outcome now c)) = []
   \<and> currentSpokenText (fst (stopSession committed current api_key outcome now c))
       = \<lparr>user = [], model = []\<rparr>
   \<and> sessionPromiseRef (fst (stopSession committed current api_key outcome now c)) = None
   \<and> mediaStreamRef (fst (stopSession committed current api_key outcome now c)) = None
   \<and> scriptProcessorRef (fst (stopSession committed current api_key outcome now c)) = None
   \<and> frameIntervalRef (fst (stopSession committed current api_key outcome now c)) = None
   \<and> videoRef (fst (stopSession committed current api_key outcome now c))
       = (case videoRef c of None \<Rightarrow> None | Some src \<Rightarrow> Some None)
   \<and> audioContextRef (fst (stopSession committed current api_key outcome now c))
       = (case audioContextRef c of
            None \<Rightarrow> None
          | Some (ctx, ctx_closed) \<Rightarrow> if ctx_closed then Some (ctx, True) else None)"
  unfolding stopSession_def Let_def fst_conv generateAndSaveSummary_state
  by (simp add: stopAllStreams_def Let_def split: option.splits prod.splits)

lemma stopSession_when_stopped:
  assumes "isSessionActive s = False" "isMicOn s = False" "isCameraOn s = False"
    "isScreenOn s = False" "isAnnotating s = False" "status s = ''Session ended.''"
    "transcription s = []" "currentSpokenText s = \<lparr>user = [], model = []\<rparr>"
    "sessionPromiseRef s = None" "mediaStreamRef s = None" "scriptProcessorRef s = None"
    "frameIntervalRef s = None" "videoRef s = None \<or> videoRef s = Some None"
    "audioContextRef s = None \<or> (\<exists>ctx. audioContextRef s = Some (ctx, True))"
  shows "fst (stopSession committed current api_key outcome now s) = s"
proof -
  have idle: "stopAllStreams s = s"
    using assms by (intro stopAllStreams_idle) auto
  have flags: "s\<lparr>isSessionActive := False, isMicOn := False, isCameraOn := False,
      isScreenOn := False, isAnnotating := False\<rparr> = s"
    using assms by (intro live_session.equality) simp_all
  have last: "s\<lparr>transcription := [], currentSpokenText := \<lparr>user = [], model = []\<rparr>,
      status := ''Session ended.''\<rparr> = s"
    using assms by (intro live_session.equality) simp_all
  show ?thesis
    unfolding stopSession_def Let_def fst_conv generateAndSaveSummary_state flags idle
    using assms(9,11,14) last by (auto split: option.splits)
qed

lemma stopSession_twice:
  "fst (stopSession committed' current' api_key' outcome' now'
          (fst (stopSession committed current api_key outcome now c)))
   = fst (stopSession committed current api_key outcome now c)"
  by (rule stopSession_when_stopped)
     (simp_all add: stopSession_result split: option.splits prod.splits)

lemma stopSession_logs_when_idle:
  "mediaStreamRef c = None \<Longrightarrow> frameIntervalRef c = None \<Longrightarrow> scriptProcessorRef c = None
   \<Longrightarrow> sessionPromiseRef c = None \<Longrightarrow> audioContextRef c = None
   \<Longrightarrow> trackStops (fst (stopSession committed current api_key outcome now c)) = trackStops c
     \<and> intervalsCleared (fst (stopSession committed current api_key outcome now c))
         = intervalsCleared c
     \<and> sessionCloses (fst (stopSession committed current api_key outcome now c))
         = sessionCloses c
     \<and> disconnects (fst (stopSession committed current api_key outcome now c))
         = disconnects c
     \<and> contextCloses (fst (stopSession committed current api_key outcome now c))
         = contextCloses c"
  unfolding stopSession_def Let_def fst_conv generateAndSaveSummary_state
  by (simp add: stopAllStreams_def Let_def split: option.splits prod.splits)

lemma second_stop_no_record:
  "snd (stop_clicked api_key' outcome' now'
          (fst (stopSession committed current api_key outcome now c))) = []
   \<and> snd (stop_on_unmount api_key' outcome' now' s) = []"
  by (simp add: stop_clicked_def stop_on_unmount_def stopSession_records stopSession_result
      finalTranscription_def flushPending_def generateAndSaveSummary_def)

text \<open>
  C8. \<^verbatim>\<open>stopAllStreams\<close> run twice does what it does once. A second \<^verbatim>\<open>stopSession\<close>,
  from whichever closure, returns the state the first one left, with every log of browser
  calls as it was; called from the Stop button or from the unmount cleanup it calls
  \<^verbatim>\<open>onSessionEnd\<close> no more. With no media stream and no frame interval
  \<^verbatim>\<open>stopAllStreams\<close> changes nothing, and with no script processor, no session and no
  audio context either, \<^verbatim>\<open>stopSession\<close> makes no call to the browser. The functions are
  total: every path of the source returns, the rejection of the session promise being
  caught.
\<close>

theorem stop_is_idempotent:
  "stopAllStreams (stopAllStreams c) = stopAllStreams c
   \<and> fst (stopSession committed' current' api_key' outcome' now'
            (fst (stopSession committed current api_key outcome now c)))
       = fst (stopSession committed current api_key outcome now c)
   \<and> stop_clicked api_key' outcome' now' (fst (stop_clicked api_key outcome now c))
       = (fst (stop_clicked api_key outcome now c), [])
   \<and> stop_on_unmount api_key' outcome' now' (fst (stop_clicked api_key outcome now c))
       = (fst (stop_clicked api_key outcome now c), [])
   \<and> (mediaStreamRef c = None \<and> frameIntervalRef c = None \<and> videoRef c = Some None
        \<longrightarrow> stopAllStreams c = c)
   \<and> (mediaStreamRef c = None \<and> frameIntervalRef c = None \<and> scriptProcessorRef c = None
        \<and> sessionPromiseRef c = None \<and> audioContextRef c = None
        \<longrightarrow> trackStops (fst (stopSession committed current api_key outcome now c))
              = trackStops c
            \<and> intervalsCleared (fst (stopSession committed current api_key outcome now c))
              = intervalsCleared c
            \<and> sessionCloses (fst (stopSession committed current api_key outcome now c))
              = sessionCloses c
            \<and> disconnects (fst (stopSession committed current api_key outcome now c))
              = disconnects c
            \<and> contextCloses (fst (stopSession committed current api_key outcome now c))
              = contextCloses c)"
proof -
  have a: "stop_clicked api_key' outcome' now' (fst (stop_clicked api_key outcome now c))
       = (fst (stop_clicked api_key outcome now c), [])"
    using stopSession_twice second_stop_no_record
    by (simp add: stop_clicked_def prod_eq_iff)
  have b: "stop_on_unmount api_key' outcome' now' (fst (stop_clicked api_key outcome now c))
       = (fst (stop_clicked api_key outcome now c), [])"
    using stopSession_twice second_stop_no_record
    by (simp add: stop_clicked_def stop_on_unmount_def prod_eq_iff)
  show ?thesis
    using a b stopAllStreams_twice [of c] stopAllStreams_idle [of c]
      stopSession_twice [of committed' current' api_key' outcome' now' committed current
        api_key outcome now c]
      stopSession_logs_when_idle [of c committed current api_key outcome now]
    by blast
qed

theorem stop_is_idempotent_witness:
  "(mediaStreamRef mounted = None \<and> frameIntervalRef mounted = None
      \<and> videoRef mounted = Some None)
   \<and> stopAllStreams mounted = mounted
   \<and> (mediaStreamRef mounted = None \<and> frameIntervalRef mounted = None
      \<and> scriptProcessorRef mounted = None \<and> sessionPromiseRef mounted = None
      \<and> audioContextRef mounted = None)
   \<and> trackStops (fst (stopSession [] empty_turn None Throws (''i'', ''d'') mounted)) = []
   \<and> sessionCloses (fst (stopSession [] empty_turn None Throws (''i'', ''d'') mounted)) = []"
proof -
  have h1: "mediaStreamRef mounted = None \<and> frameIntervalRef mounted = None
      \<and> videoRef mounted = Some None"
    by (simp add: mounted_def)
  have h2: "mediaStreamRef mounted = None \<and> frameIntervalRef mounted = None
      \<and> scriptProcessorRef mounted = None \<and> sessionPromiseRef mounted = None
      \<and> audioContextRef mounted = None"
    by (simp add: mounted_def)
  have e: "trackStops mounted = [] \<and> sessionCloses mounted = []"
    by (simp add: mounted_def)
  from h1 h2 e stop_is_idempotent
    [where c = mounted and committed = "[]" and current = empty_turn and api_key = None
       and outcome = Throws and now = "(''i'', ''d'')" and committed' = "[]"
       and current' = empty_turn and api_key' = None and outcome' = Throws
       and now' = "(''i'', ''d'')"]
  show ?thesis by simp
qed

section \<open>Teardown at unmount\<close>

text \<open>
  The unmount cleanup (lines 37 to 41, an effect with no dependencies) calls the
  \<^verbatim>\<open>stopSession\<close> of the first render, whose closure holds no committed turn and the empty
  current turn: whatever the state holds, it hands the empty transcript on and no record
  is made.
\<close>

lemma unmount_makes_no_record: "snd (stop_on_unmount api_key outcome now c) = []"
  by (simp add: stop_on_unmount_def stopSession_records finalTranscription_def
      flushPending_def generateAndSaveSummary_def)

text \<open>
  C4 on the code. A session is active and the user delta \<^verbatim>\<open>hi\<close> has arrived, with no
  \<^verbatim>\<open>turnComplete\<close> yet: the current turn is not empty. The component is unmounted (the
  user opens another feature). The cleanup closes the session and resets the current
  turn, but \<^verbatim>\<open>onSessionEnd\<close> is not called: the turn reaches no transcript. Stopping the
  same state with the Stop button does flush it: the record made there (here with the
  summarizer failing, so that its content is the transcript text) holds the turn.
\<close>

theorem unmount_drops_pending_turn:
  "currentSpokenText (onmessage_all (startSession_captures mounted)
        [InputTranscriptDelta ''hi''] (onopen (startSession (Some ''key'') True mounted)))
     = \<lparr>user = ''hi'', model = []\<rparr>
   \<and> snd (stop_on_unmount (Some ''key'') Throws (''i'', ''d'')
        (onmessage_all (startSession_captures mounted)
          [InputTranscriptDelta ''hi''] (onopen (startSession (Some ''key'') True mounted))))
     = []
   \<and> currentSpokenText (fst (stop_on_unmount (Some ''key'') Throws (''i'', ''d'')
        (onmessage_all (startSession_captures mounted)
          [InputTranscriptDelta ''hi''] (onopen (startSession (Some ''key'') True mounted)))))
     = \<lparr>user = [], model = []\<rparr>
   \<and> sessionCloses (fst (stop_on_unmount (Some ''key'') Throws (''i'', ''d'')
        (onmessage_all (startSession_captures mounted)
          [InputTranscriptDelta ''hi''] (onopen (startSession (Some ''key'') True mounted)))))
     = [0]
   \<and> snd (stop_clicked (Some ''key'') Throws (''i'', ''d'')
        (onmessage_all (startSession_captures mounted)
          [InputTranscriptDelta ''hi''] (onopen (startSession (Some ''key'') True mounted))))
     = [\<lparr>summary_id = ''i'', title = ''Session Log (Summary Failed)'',
          content = ''User: hi'' @ [CHR 0x0A] @ ''Gemini: '', date = ''d''\<rparr>]"
proof -
  let ?c = "onmessage_all (startSession_captures mounted)
        [InputTranscriptDelta ''hi''] (onopen (startSession (Some ''key'') True mounted))"
  have c: "?c = mounted\<lparr>isSessionActive := True,
      status := ''Connected! Enable mic to start talking.'',
      sessionPromiseRef := Some \<lparr>promise_id = 0, fulfils = True\<rparr>, nextHandle := 1,
      currentSpokenText := \<lparr>user = ''hi'', model = []\<rparr>\<rparr>"
    by (simp add: startSession_captures_def mounted_def empty_turn_def startSession_def
        key_set_def onopen_def onmessage_transcript_def InputTranscriptDelta_def
        no_content_def Let_def)
  have a1: "currentSpokenText ?c = \<lparr>user = ''hi'', model = []\<rparr>"
    unfolding c by simp
  have a2: "snd (stop_on_unmount (Some ''key'') Throws (''i'', ''d'') ?c) = []"
    by (rule unmount_makes_no_record)
  have a3: "currentSpokenText (fst (stop_on_unmount (Some ''key'') Throws (''i'', ''d'') ?c))
      = \<lparr>user = [], model = []\<rparr>"
    by (simp add: stop_on_unmount_def stopSession_result)
  have a4: "sessionCloses (fst (stop_on_unmount (Some ''key'') Throws (''i'', ''d'') ?c)) = [0]"
    unfolding c stop_on_unmount_def stopSession_def Let_def fst_conv
      generateAndSaveSummary_state
    by (simp add: mounted_def stopAllStreams_def Let_def)
  have a5: "snd (stop_clicked (Some ''key'') Throws (''i'', ''d'') ?c)
      = [\<lparr>summary_id = ''i'', title = ''Session Log (Summary Failed)'',
          content = ''User: hi'' @ [CHR 0x0A] @ ''Gemini: '', date = ''d''\<rparr>]"
    unfolding stop_clicked_def stopSession_records c
    by (simp add: mounted_def empty_turn_def finalTranscription_def flushPending_def
        generateAndSaveSummary_def key_set_def transcriptText_def turn_text_def)
  show ?thesis
    by (intro conjI) (fact a1 a2 a3 a4 a5)+
qed

section \<open>Camera and screen share\<close>

lemma active_session:
  "onopen (startSession (Some ''key'') True mounted)
   = mounted\<lparr>isSessionActive := True, status := ''Connected! Enable mic to start talking.'',
       sessionPromiseRef := Some \<lparr>promise_id = 0, fulfils = True\<rparr>, nextHandle := 1\<rparr>"
  by (simp add: mounted_def startSession_def key_set_def onopen_def)

lemma both_clicked:
  "run [ClickCamera, ClickScreenShare] (onopen (startSession (Some ''key'') True mounted))
   = mounted\<lparr>isSessionActive := True, status := ''Connected! Enable mic to start talking.'',
       sessionPromiseRef := Some \<lparr>promise_id = 0, fulfils = True\<rparr>, nextHandle := 1,
       pendingMedia := [Camera, Screen]\<rparr>"
  unfolding active_session
  by (simp add: mounted_def toggleCamera_def
      toggleScreenShare_def startMediaStream_begin_def stopAllStreams_def Let_def)

lemma both_granted:
  "run [ClickCamera, ClickScreenShare, MediaSettles Granted, MediaSettles Granted]
     (onopen (startSession (Some ''key'') True mounted))
   = mounted\<lparr>isSessionActive := True, status := ''Connected! Enable mic to start talking.'',
       sessionPromiseRef := Some \<lparr>promise_id = 0, fulfils = True\<rparr>, nextHandle := 5,
       pendingMedia := [], opened := [(Camera, 1), (Screen, 3)], mediaStreamRef := Some 3,
       videoRef := Some (Some 3), isCameraOn := True, isScreenOn := True,
       intervalsSet := [2, 4], frameIntervalRef := Some 4\<rparr>"
proof -
  have "run [ClickCamera, ClickScreenShare, MediaSettles Granted, MediaSettles Granted]
     (onopen (startSession (Some ''key'') True mounted))
     = run [MediaSettles Granted, MediaSettles Granted]
        (run [ClickCamera, ClickScreenShare] (onopen (startSession (Some ''key'') True mounted)))"
    by simp
  also have "\<dots> = mounted\<lparr>isSessionActive := True, status := ''Connected! Enable mic to start talking.'',
       sessionPromiseRef := Some \<lparr>promise_id = 0, fulfils = True\<rparr>, nextHandle := 5,
       pendingMedia := [], opened := [(Camera, 1), (Screen, 3)], mediaStreamRef := Some 3,
       videoRef := Some (Some 3), isCameraOn := True, isScreenOn := True,
       intervalsSet := [2, 4], frameIntervalRef := Some 4\<rparr>"
    unfolding both_clicked
    by (simp add: mounted_def media_settles_def startMediaStream_resume_def Let_def)
  finally show ?thesis .
qed

text \<open>
  C5 on the code. In an active session with camera and screen off, the user clicks the
  camera button and then the screen-share button before the browser has answered the
  first request. Both clicks find both flags false, so neither clears a flag, and
  \<^verbatim>\<open>stopAllStreams\<close> finds nothing to release. Both requests are then granted: the two
  continuations set \<^verbatim>\<open>isCameraOn\<close> and \<^verbatim>\<open>isScreenOn\<close>. Both flags are true, both
  streams are held (the camera stream is no longer in \<^verbatim>\<open>mediaStreamRef\<close>, so nothing can
  stop it), and both frame timers run.
\<close>

theorem overlapping_toggles_hold_both:
  "isCameraOn (run [ClickCamera, ClickScreenShare, MediaSettles Granted, MediaSettles Granted]
          (onopen (startSession (Some ''key'') True mounted)))
   \<and> isScreenOn (run [ClickCamera, ClickScreenShare, MediaSettles Granted, MediaSettles Granted]
          (onopen (startSession (Some ''key'') True mounted)))
   \<and> held_streams (run [ClickCamera, ClickScreenShare, MediaSettles Granted, MediaSettles Granted]
          (onopen (startSession (Some ''key'') True mounted)))
       = [(Camera, 1), (Screen, 3)]
   \<and> running_intervals (run [ClickCamera, ClickScreenShare, MediaSettles Granted,
          MediaSettles Granted] (onopen (startSession (Some ''key'') True mounted)))
       = [2, 4]
   \<and> mediaStreamRef (run [ClickCamera, ClickScreenShare, MediaSettles Granted,
          MediaSettles Granted] (onopen (startSession (Some ''key'') True mounted)))
       = Some 3"
  unfolding both_granted
  by (simp add: mounted_def held_streams_def running_intervals_def)

text \<open>
  When every toggle's request is settled before the next click, the two flags are never
  both true.
\<close>

lemma stopAllStreams_keeps:
  "isSessionActive (stopAllStreams c) = isSessionActive c
   \<and> isCameraOn (stopAllStreams c) = isCameraOn c
   \<and> isScreenOn (stopAllStreams c) = isScreenOn c
   \<and> pendingMedia (stopAllStreams c) = pendingMedia c
   \<and> sharedImage (stopAllStreams c) = sharedImage c
   \<and> thenSends (stopAllStreams c) = thenSends c
   \<and> sessionPromiseRef (stopAllStreams c) = sessionPromiseRef c"
  by (simp add: stopAllStreams_def Let_def split: option.splits)

lemma startMediaStream_resume_flags:
  "isCameraOn (startMediaStream_resume type result c)
     = (isCameraOn c \<or> type = Camera \<and> result = Granted)
   \<and> isScreenOn (startMediaStream_resume type result c)
     = (isScreenOn c \<or> type = Screen \<and> result = Granted)
   \<and> pendingMedia (startMediaStream_resume type result c) = pendingMedia c
   \<and> sharedImage (startMediaStream_resume type result c) = sharedImage c
   \<and> thenSends (startMediaStream_resume type result c) = thenSends c
   \<and> sessionPromiseRef (startMediaStream_resume type result c) = sessionPromiseRef c"
  by (cases result; cases type)
     (simp_all add: startMediaStream_resume_def Let_def split: option.splits)

lemma toggle_camera_in_turn:
  assumes "pendingMedia c = []" and "\<not> (isCameraOn c \<and> isScreenOn c)"
  shows "pendingMedia (media_settles result (toggleCamera c)) = []
     \<and> \<not> (isCameraOn (media_settles result (toggleCamera c))
          \<and> isScreenOn (media_settles result (toggleCamera c)))"
proof (cases "isSessionActive c \<and> \<not> isCameraOn c")
  case True
  then have "toggleCamera c
      = (stopAllStreams (if isScreenOn c then c\<lparr>isScreenOn := False\<rparr> else c))
          \<lparr>pendingMedia := [Camera]\<rparr>"
    using assms(1) by (simp add: toggleCamera_def startMediaStream_begin_def Let_def stopAllStreams_keeps)
  then show ?thesis
    using True by (simp add: media_settles_def startMediaStream_resume_flags stopAllStreams_keeps)
next
  case False
  then have "pendingMedia (toggleCamera c) = []
      \<and> \<not> (isCameraOn (toggleCamera c) \<and> isScreenOn (toggleCamera c))"
    using assms by (auto simp: toggleCamera_def stopAllStreams_keeps)
  then show ?thesis by (simp add: media_settles_def)
qed

lemma toggle_screen_in_turn:
  assumes "pendingMedia c = []" and "\<not> (isCameraOn c \<and> isScreenOn c)"
  shows "pendingMedia (media_settles result (toggleScreenShare c)) = []
     \<and> \<not> (isCameraOn (media_settles result (toggleScreenShare c))
          \<and> isScreenOn (media_settles result (toggleScreenShare c)))"
proof (cases "isSessionActive c \<and> \<not> isScreenOn c")
  case True
  then have "toggleScreenShare c
      = (stopAllStreams (if isCameraOn c then c\<lparr>isCameraOn := False\<rparr> else c))
          \<lparr>pendingMedia := [Screen]\<rparr>"
    using assms(1) by (simp add: toggleScreenShare_def startMediaStream_begin_def Let_def stopAllStreams_keeps)
  then show ?thesis
    using True by (simp add: media_settles_def startMediaStream_resume_flags stopAllStreams_keeps)
next
  case False
  then have "pendingMedia (toggleScreenShare c) = []
      \<and> \<not> (isCameraOn (toggleScreenShare c) \<and> isScreenOn (toggleScreenShare c))"
    using assms by (auto simp: toggleScreenShare_def stopAllStreams_keeps)
  then show ?thesis by (simp add: media_settles_def)
qed

section \<open>The shared image is consumed once\<close>











end
